theory Spec2Isabelle
  imports Main
begin

section \<open>Plain data handed through the facades\<close>

text \<open>
  The two facade classes \<^verbatim>\<open>UserDefinedFunctions\<close> and \<^verbatim>\<open>Databases\<close> forward typed
  calls to a request-dispatch component (\<^verbatim>\<open>ClientContext\<close>, \<^verbatim>\<open>documentClient\<close>).
  Options, headers and thrown error objects are JavaScript objects that the facades never
  inspect; each is represented by the list of its properties, so the empty object
  \<^verbatim>\<open>{}\<close> is the empty list.
\<close>

type_synonym props = "(string \<times> string) list"
type_synonym error_object = props
type_synonym IHeaders = props
type_synonym RequestOptions = props
type_synonym FeedOptions = props

record SqlQuerySpec =
  sql_query :: string
  sql_parameters :: props

text \<open>
  Modelled from the spec: the declarations of \<^verbatim>\<open>UserDefinedFunctionDefinition\<close> and
  \<^verbatim>\<open>DatabaseDefinition\<close> are not among the source files. The spec calls them plain
  request/response DTOs whose only requirement is the presence of their fields (\<^verbatim>\<open>id\<close>,
  \<^verbatim>\<open>body\<close>); the code reads and writes \<^verbatim>\<open>body.body\<close> and reads \<^verbatim>\<open>response.result.id\<close>.
  A field that is absent is \<open>None\<close>. A body is a string or a function, the two kinds of
  value on which \<^verbatim>\<open>toString()\<close> is called; a function is identified with the source text
  that its \<^verbatim>\<open>toString()\<close> returns.
\<close>

datatype udf_body = BodyString string | BodyFunction string

record UserDefinedFunctionDefinition =
  def_id :: "string option"
  def_body :: "udf_body option"

record DatabaseDefinition =
  dbdef_id :: "string option"

text \<open>JavaScript truthiness of \<^verbatim>\<open>body.body\<close>: \<^verbatim>\<open>undefined\<close> and the empty string are falsy.\<close>

fun truthy :: "udf_body option \<Rightarrow> bool" where
  "truthy None = False"
| "truthy (Some (BodyString s)) = (s \<noteq> [])"
| "truthy (Some (BodyFunction src)) = True"

fun toString :: "udf_body \<Rightarrow> string" where
  "toString (BodyString s) = s"
| "toString (BodyFunction src) = src"

text \<open>
  Modelled from the spec: the declaration of \<^verbatim>\<open>Response\<close> is not among the source files.
  The spec calls it a wrapper pairing a body and headers; the code reads
  \<^verbatim>\<open>response.result\<close> and \<^verbatim>\<open>response.headers\<close>.
\<close>

record 'a Response =
  res_result :: 'a
  res_headers :: IHeaders

text \<open>
  The raw feed page handed to a result selector is an object whose properties hold arrays
  of definitions; \<^verbatim>\<open>result.UserDefinedFunctions\<close> reads one property.
\<close>

type_synonym feed_page = "string \<Rightarrow> UserDefinedFunctionDefinition list option"
type_synonym result_selector = "feed_page \<Rightarrow> UserDefinedFunctionDefinition list option"

section \<open>The dispatch layer, taken as a parameter\<close>

text \<open>
  \<^verbatim>\<open>ClientContext\<close> and \<^verbatim>\<open>documentClient\<close> are not among the source files. Each of
  their methods is a parameter: a function from the arguments of the call and the dispatch
  layer's own state \<open>'w\<close> (connections, the remote service) to an outcome and a new state.
  An outcome is \<open>Inl e\<close> when the call throws or its promise rejects with \<open>e\<close>, and
  \<open>Inr r\<close> when it returns or resolves with \<open>r\<close>. The iterators that \<^verbatim>\<open>documentClient\<close>
  hands out are opaque values of type \<open>'qi\<close>. The dispatch layer works on its own state:
  it writes neither to the facade object nor to the definition object it is handed.
\<close>

record 'w ClientContext =
  cc_create :: "UserDefinedFunctionDefinition \<Rightarrow> string \<Rightarrow> string \<Rightarrow> string \<Rightarrow>
     IHeaders option \<Rightarrow> RequestOptions option \<Rightarrow> 'w \<Rightarrow>
     (error_object + UserDefinedFunctionDefinition Response) \<times> 'w"
  cc_upsert :: "UserDefinedFunctionDefinition \<Rightarrow> string \<Rightarrow> string \<Rightarrow> string \<Rightarrow>
     IHeaders option \<Rightarrow> RequestOptions option \<Rightarrow> 'w \<Rightarrow>
     (error_object + UserDefinedFunctionDefinition Response) \<times> 'w"
  cc_queryFeed :: "string \<Rightarrow> string \<Rightarrow> string \<Rightarrow> result_selector \<Rightarrow>
     SqlQuerySpec option \<Rightarrow> FeedOptions option \<Rightarrow> 'w \<Rightarrow>
     (error_object + UserDefinedFunctionDefinition list option Response) \<times> 'w"

record ('w, 'qi) DocumentClient =
  dc_queryDatabases :: "SqlQuerySpec option \<Rightarrow> FeedOptions option \<Rightarrow> 'w \<Rightarrow>
     (error_object + 'qi) \<times> 'w"
  dc_createDatabase :: "DatabaseDefinition \<Rightarrow> RequestOptions option \<Rightarrow> 'w \<Rightarrow>
     (error_object + DatabaseDefinition Response) \<times> 'w"
  dc_readDatabases :: "FeedOptions option \<Rightarrow> 'w \<Rightarrow> (error_object + 'qi) \<times> 'w"

record ('w, 'qi) CosmosClient =
  documentClient :: "('w, 'qi) DocumentClient"

text \<open>
  The static helpers of \<^verbatim>\<open>Helper\<close> (module \<^verbatim>\<open>common\<close>) are not among the source files
  either and are parameters too. \<^verbatim>\<open>isResourceValid(resource, err)\<close> answers with a
  boolean and may fill the error object it is given, so it returns both; it reads the
  resource and does not write to it.
\<close>

record Helper =
  isResourceValid :: "UserDefinedFunctionDefinition \<Rightarrow> error_object \<Rightarrow> bool \<times> error_object"
  getPathFromLink :: "string \<Rightarrow> string \<Rightarrow> string"
  getIdFromLink :: "string \<Rightarrow> string"

section \<open>Resource handles and the facade objects\<close>

text \<open>
  Modelled from the spec: the classes \<^verbatim>\<open>Database\<close>, \<^verbatim>\<open>Container\<close> and
  \<^verbatim>\<open>UserDefinedFunction\<close> and the type \<^verbatim>\<open>UserDefinedFunctionResponse\<close> are not among the
  source files. The spec calls them handles to a resource, and the response a wrapper
  pairing a body, headers and a handle to the created resource. A constructor call
  \<^verbatim>\<open>new X(a, b, ...)\<close> is the record of its arguments. Of a container the code reads
  \<^verbatim>\<open>url\<close> and \<^verbatim>\<open>database.client\<close>; the response has the five fields of the object
  literal that \<^verbatim>\<open>create\<close> and \<^verbatim>\<open>upsert\<close> return.
\<close>

record ('w, 'qi) Database =
  db_client :: "('w, 'qi) CosmosClient"
  db_id :: string

record ('w, 'qi) Container =
  c_database :: "('w, 'qi) Database"
  c_url :: string

record ('w, 'qi) UserDefinedFunction =
  udf_container :: "('w, 'qi) Container"
  udf_id :: "string option"
  udf_clientContext :: "'w ClientContext"

record ('w, 'qi) UserDefinedFunctionResponse =
  resp_body :: UserDefinedFunctionDefinition
  resp_headers :: IHeaders
  resp_ref :: "('w, 'qi) UserDefinedFunction"
  resp_userDefinedFunction :: "('w, 'qi) UserDefinedFunction"
  resp_udf :: "('w, 'qi) UserDefinedFunction"

text \<open>The fields of \<^verbatim>\<open>class UserDefinedFunctions\<close> and of \<^verbatim>\<open>class Databases\<close>.\<close>

record ('w, 'qi) UserDefinedFunctions =
  udfs_container :: "('w, 'qi) Container"
  udfs_clientContext :: "'w ClientContext"
  udfs_client :: "('w, 'qi) CosmosClient"

record ('w, 'qi) Databases =
  dbs_client :: "('w, 'qi) CosmosClient"

section \<open>Program state\<close>

text \<open>
  Every call made to the dispatch layer is recorded, with its arguments, in a log.
\<close>

datatype dispatch_call =
    CC_create UserDefinedFunctionDefinition string string string "IHeaders option"
      "RequestOptions option"
  | CC_upsert UserDefinedFunctionDefinition string string string "IHeaders option"
      "RequestOptions option"
  | CC_queryFeed string string string result_selector "SqlQuerySpec option"
      "FeedOptions option"
  | DC_queryDatabases "SqlQuerySpec option" "FeedOptions option"
  | DC_createDatabase DatabaseDefinition "RequestOptions option"
  | DC_readDatabases "FeedOptions option"

text \<open>
  A method runs on a state that holds
  \<^item> \<open>self\<close>: the facade object the method is invoked on (\<^verbatim>\<open>this\<close>), so that an
    assignment to one of its fields would show;
  \<^item> \<open>heap\<close>: the definition objects of the caller, by reference: \<^verbatim>\<open>create(body)\<close>
    receives a reference and writes through it;
  \<^item> \<open>world\<close>: the state of the dispatch layer;
  \<^item> \<open>calls\<close>: the log of calls made to the dispatch layer, oldest first.
\<close>

type_synonym ref = nat

record ('t, 'w) state =
  self :: 't
  heap :: "ref \<Rightarrow> UserDefinedFunctionDefinition"
  world :: 'w
  calls :: "dispatch_call list"

text \<open>A call to a method of the dispatch layer: it runs on the world and is logged.\<close>

definition clientContext_create ::
  "'w ClientContext \<Rightarrow> UserDefinedFunctionDefinition \<Rightarrow> string \<Rightarrow> string \<Rightarrow> string \<Rightarrow>
   IHeaders option \<Rightarrow> RequestOptions option \<Rightarrow> ('t, 'w) state \<Rightarrow>
   (error_object + UserDefinedFunctionDefinition Response) \<times> ('t, 'w) state" where
  "clientContext_create cc body path kind id' initialHeaders options s =
     (let (r, w') = cc_create cc body path kind id' initialHeaders options (world s)
      in (r, s\<lparr>world := w',
                calls := calls s @ [CC_create body path kind id' initialHeaders options]\<rparr>))"

definition clientContext_upsert ::
  "'w ClientContext \<Rightarrow> UserDefinedFunctionDefinition \<Rightarrow> string \<Rightarrow> string \<Rightarrow> string \<Rightarrow>
   IHeaders option \<Rightarrow> RequestOptions option \<Rightarrow> ('t, 'w) state \<Rightarrow>
   (error_object + UserDefinedFunctionDefinition Response) \<times> ('t, 'w) state" where
  "clientContext_upsert cc body path kind id' initialHeaders options s =
     (let (r, w') = cc_upsert cc body path kind id' initialHeaders options (world s)
      in (r, s\<lparr>world := w',
                calls := calls s @ [CC_upsert body path kind id' initialHeaders options]\<rparr>))"

definition clientContext_queryFeed ::
  "'w ClientContext \<Rightarrow> string \<Rightarrow> string \<Rightarrow> string \<Rightarrow> result_selector \<Rightarrow>
   SqlQuerySpec option \<Rightarrow> FeedOptions option \<Rightarrow> ('t, 'w) state \<Rightarrow>
   (error_object + UserDefinedFunctionDefinition list option Response) \<times> ('t, 'w) state" where
  "clientContext_queryFeed cc path kind id' selector query options s =
     (let (r, w') = cc_queryFeed cc path kind id' selector query options (world s)
      in (r, s\<lparr>world := w',
                calls := calls s @ [CC_queryFeed path kind id' selector query options]\<rparr>))"

definition documentClient_queryDatabases ::
  "('w, 'qi) DocumentClient \<Rightarrow> SqlQuerySpec option \<Rightarrow> FeedOptions option \<Rightarrow>
   ('t, 'w) state \<Rightarrow> (error_object + 'qi) \<times> ('t, 'w) state" where
  "documentClient_queryDatabases dc query options s =
     (let (r, w') = dc_queryDatabases dc query options (world s)
      in (r, s\<lparr>world := w', calls := calls s @ [DC_queryDatabases query options]\<rparr>))"

definition documentClient_createDatabase ::
  "('w, 'qi) DocumentClient \<Rightarrow> DatabaseDefinition \<Rightarrow> RequestOptions option \<Rightarrow>
   ('t, 'w) state \<Rightarrow> (error_object + DatabaseDefinition Response) \<times> ('t, 'w) state" where
  "documentClient_createDatabase dc body options s =
     (let (r, w') = dc_createDatabase dc body options (world s)
      in (r, s\<lparr>world := w', calls := calls s @ [DC_createDatabase body options]\<rparr>))"

definition documentClient_readDatabases ::
  "('w, 'qi) DocumentClient \<Rightarrow> FeedOptions option \<Rightarrow>
   ('t, 'w) state \<Rightarrow> (error_object + 'qi) \<times> ('t, 'w) state" where
  "documentClient_readDatabases dc options s =
     (let (r, w') = dc_readDatabases dc options (world s)
      in (r, s\<lparr>world := w', calls := calls s @ [DC_readDatabases options]\<rparr>))"

section \<open>class UserDefinedFunctions\<close>

text \<open>
  The constructor: \<^verbatim>\<open>this.client = this.container.database.client\<close>, the two parameter
  properties are stored as they come.
\<close>

definition UserDefinedFunctions_new ::
  "('w, 'qi) Container \<Rightarrow> 'w ClientContext \<Rightarrow> ('w, 'qi) UserDefinedFunctions" where
  "UserDefinedFunctions_new container clientContext =
     \<lparr>udfs_container = container, udfs_clientContext = clientContext,
      udfs_client = db_client (c_database container)\<rparr>"

text \<open>
  Modelled from the spec: the class \<^verbatim>\<open>QueryIterator\<close> is not among the source files. The
  spec calls a feed a paginated result stream returned by list and query operations.
  \<^verbatim>\<open>new QueryIterator(clientContext, query, options, fetchFunction)\<close> is the record of its
  four arguments. The fetch function is the arrow function of \<^verbatim>\<open>query\<close>; it runs when
  the iterator asks for a page, on the state of that moment.
\<close>

record ('w, 'qi) QueryIterator =
  qi_clientContext :: "'w ClientContext"
  qi_query :: "SqlQuerySpec option"
  qi_options :: "FeedOptions option"
  qi_fetchFunctions :: "FeedOptions option \<Rightarrow> (('w, 'qi) UserDefinedFunctions, 'w) state \<Rightarrow>
     (error_object + UserDefinedFunctionDefinition list option Response) \<times>
     (('w, 'qi) UserDefinedFunctions, 'w) state"

definition UserDefinedFunctions_query ::
  "Helper \<Rightarrow> SqlQuerySpec option \<Rightarrow> FeedOptions option \<Rightarrow>
   (('w, 'qi) UserDefinedFunctions, 'w) state \<Rightarrow>
   ('w, 'qi) QueryIterator \<times> (('w, 'qi) UserDefinedFunctions, 'w) state" where
  "UserDefinedFunctions_query H query options s =
     (let path = getPathFromLink H (c_url (udfs_container (self s))) ''udfs'';
          id' = getIdFromLink H (c_url (udfs_container (self s)))
      in (\<lparr>qi_clientContext = udfs_clientContext (self s),
           qi_query = query,
           qi_options = options,
           qi_fetchFunctions = (\<lambda>innerOptions s'.
             clientContext_queryFeed (udfs_clientContext (self s')) path ''udfs'' id'
               (\<lambda>result. result ''UserDefinedFunctions'') query innerOptions s')\<rparr>, s))"

definition UserDefinedFunctions_readAll ::
  "Helper \<Rightarrow> FeedOptions option \<Rightarrow> (('w, 'qi) UserDefinedFunctions, 'w) state \<Rightarrow>
   ('w, 'qi) QueryIterator \<times> (('w, 'qi) UserDefinedFunctions, 'w) state" where
  "UserDefinedFunctions_readAll H options s = UserDefinedFunctions_query H None options s"

text \<open>
  The first statement of \<^verbatim>\<open>create\<close> and of \<^verbatim>\<open>upsert\<close>:
  \<^verbatim>\<open>if (body.body) { body.body = body.body.toString(); }\<close>, as a function of the object.
\<close>

definition stringify_body :: "UserDefinedFunctionDefinition \<Rightarrow> UserDefinedFunctionDefinition" where
  "stringify_body d =
     (case def_body d of
        None \<Rightarrow> d
      | Some b \<Rightarrow> if truthy (Some b) then d\<lparr>def_body := Some (BodyString (toString b))\<rparr> else d)"

definition UserDefinedFunctions_create ::
  "Helper \<Rightarrow> ref \<Rightarrow> RequestOptions option \<Rightarrow> (('w, 'qi) UserDefinedFunctions, 'w) state \<Rightarrow>
   (error_object + ('w, 'qi) UserDefinedFunctionResponse) \<times>
   (('w, 'qi) UserDefinedFunctions, 'w) state" where
  "UserDefinedFunctions_create H body options s =
     (let s1 = s\<lparr>heap := (heap s)(body := stringify_body (heap s body))\<rparr>;
          (valid, err) = isResourceValid H (heap s1 body) []
      in if \<not> valid then (Inl err, s1)
         else
           let path = getPathFromLink H (c_url (udfs_container (self s1))) ''udfs'';
               id' = getIdFromLink H (c_url (udfs_container (self s1)));
               (r, s2) = clientContext_create (udfs_clientContext (self s1)) (heap s1 body)
                           path ''udfs'' id' None options s1
           in case r of
                Inl e \<Rightarrow> (Inl e, s2)
              | Inr response \<Rightarrow>
                  let ref = \<lparr>udf_container = udfs_container (self s2),
                             udf_id = def_id (res_result response),
                             udf_clientContext = udfs_clientContext (self s2)\<rparr>
                  in (Inr \<lparr>resp_body = res_result response,
                           resp_headers = res_headers response,
                           resp_ref = ref, resp_userDefinedFunction = ref, resp_udf = ref\<rparr>,
                      s2))"

definition UserDefinedFunctions_upsert ::
  "Helper \<Rightarrow> ref \<Rightarrow> RequestOptions option \<Rightarrow> (('w, 'qi) UserDefinedFunctions, 'w) state \<Rightarrow>
   (error_object + ('w, 'qi) UserDefinedFunctionResponse) \<times>
   (('w, 'qi) UserDefinedFunctions, 'w) state" where
  "UserDefinedFunctions_upsert H body options s =
     (let s1 = s\<lparr>heap := (heap s)(body := stringify_body (heap s body))\<rparr>;
          (valid, err) = isResourceValid H (heap s1 body) []
      in if \<not> valid then (Inl err, s1)
         else
           let path = getPathFromLink H (c_url (udfs_container (self s1))) ''udfs'';
               id' = getIdFromLink H (c_url (udfs_container (self s1)));
               (r, s2) = clientContext_upsert (udfs_clientContext (self s1)) (heap s1 body)
                           path ''udfs'' id' None options s1
           in case r of
                Inl e \<Rightarrow> (Inl e, s2)
              | Inr response \<Rightarrow>
                  let ref = \<lparr>udf_container = udfs_container (self s2),
                             udf_id = def_id (res_result response),
                             udf_clientContext = udfs_clientContext (self s2)\<rparr>
                  in (Inr \<lparr>resp_body = res_result response,
                           resp_headers = res_headers response,
                           resp_ref = ref, resp_userDefinedFunction = ref, resp_udf = ref\<rparr>,
                      s2))"

section \<open>class Databases\<close>

definition Databases_getDatabase ::
  "string \<Rightarrow> (('w, 'qi) Databases, 'w) state \<Rightarrow>
   ('w, 'qi) Database \<times> (('w, 'qi) Databases, 'w) state" where
  "Databases_getDatabase id' s = (\<lparr>db_client = dbs_client (self s), db_id = id'\<rparr>, s)"

definition Databases_query ::
  "SqlQuerySpec option \<Rightarrow> FeedOptions option \<Rightarrow> (('w, 'qi) Databases, 'w) state \<Rightarrow>
   (error_object + 'qi) \<times> (('w, 'qi) Databases, 'w) state" where
  "Databases_query query options s =
     documentClient_queryDatabases (documentClient (dbs_client (self s))) query options s"

definition Databases_create ::
  "DatabaseDefinition \<Rightarrow> RequestOptions option \<Rightarrow> (('w, 'qi) Databases, 'w) state \<Rightarrow>
   (error_object + DatabaseDefinition Response) \<times> (('w, 'qi) Databases, 'w) state" where
  "Databases_create body options s =
     documentClient_createDatabase (documentClient (dbs_client (self s))) body options s"

definition Databases_read ::
  "FeedOptions option \<Rightarrow> (('w, 'qi) Databases, 'w) state \<Rightarrow>
   (error_object + 'qi) \<times> (('w, 'qi) Databases, 'w) state" where
  "Databases_read options s =
     documentClient_readDatabases (documentClient (dbs_client (self s))) options s"

section \<open>Observing a run\<close>

text \<open>
  The calls made to the dispatch layer between a state \<open>s\<close> of a run and a later state
  \<open>s'\<close>: what the log has gained.
\<close>

definition new_calls :: "('t, 'w) state \<Rightarrow> ('t, 'w) state \<Rightarrow> dispatch_call list" where
  "new_calls s s' = drop (length (calls s)) (calls s')"

text \<open>
  The iterator that the claim about \<^verbatim>\<open>readAll\<close> describes, in the claim's words: built from
  the path of the container joined with \<^verbatim>\<open>udfs\<close>, the discriminator \<^verbatim>\<open>udfs\<close>, the
  container id, the selector of \<^verbatim>\<open>UserDefinedFunctions\<close> and the options, with an undefined
  query specification.
\<close>

definition readAll_described ::
  "Helper \<Rightarrow> FeedOptions option \<Rightarrow> (('w, 'qi) UserDefinedFunctions, 'w) state \<Rightarrow>
   ('w, 'qi) QueryIterator" where
  "readAll_described H options s =
     \<lparr>qi_clientContext = udfs_clientContext (self s),
      qi_query = None,
      qi_options = options,
      qi_fetchFunctions = (\<lambda>innerOptions s'.
        clientContext_queryFeed (udfs_clientContext (self s'))
          (getPathFromLink H (c_url (udfs_container (self s))) ''udfs'') ''udfs''
          (getIdFromLink H (c_url (udfs_container (self s))))
          (\<lambda>result. result ''UserDefinedFunctions'') None innerOptions s')\<rparr>"

section \<open>The steps of an invocation\<close>

text \<open>
  What one invocation of a method does, in order, as a list of events:
  \<^item> \<open>Calls c\<close>: a call to the dispatch layer, as the call wrapper logged it;
  \<^item> \<open>Awaits\<close>: the method suspends at an \<^verbatim>\<open>await\<close> until the awaited promise settles;
  \<^item> \<open>Completes\<close>: the method returns, or the promise it returned is fulfilled;
  \<^item> \<open>Fails\<close>: the method throws, or the promise it returned is rejected.
\<close>

datatype event = Calls dispatch_call | Awaits | Completes | Fails

fun completion :: "'e + 'a \<Rightarrow> event" where
  "completion (Inl e) = Fails"
| "completion (Inr r) = Completes"

fun is_completion :: "event \<Rightarrow> bool" where
  "is_completion Completes = True"
| "is_completion Fails = True"
| "is_completion (Calls c) = False"
| "is_completion Awaits = False"

fun is_await :: "event \<Rightarrow> bool" where
  "is_await Awaits = True"
| "is_await (Calls c) = False"
| "is_await Completes = False"
| "is_await Fails = False"

fun calls_of :: "event list \<Rightarrow> dispatch_call list" where
  "calls_of [] = []"
| "calls_of (Calls c # es) = c # calls_of es"
| "calls_of (Awaits # es) = calls_of es"
| "calls_of (Completes # es) = calls_of es"
| "calls_of (Fails # es) = calls_of es"

definition completions :: "event list \<Rightarrow> nat" where
  "completions es = length (filter is_completion es)"

definition suspensions :: "event list \<Rightarrow> nat" where
  "suspensions es = length (filter is_await es)"

text \<open>
  \<^verbatim>\<open>query\<close> and \<^verbatim>\<open>readAll\<close> have no \<^verbatim>\<open>await\<close> and no \<^verbatim>\<open>throw\<close>: they return the
  iterator. The arrow function that \<^verbatim>\<open>query\<close> hands to the iterator returns what
  \<^verbatim>\<open>queryFeed\<close> gives it. \<^verbatim>\<open>create\<close> and \<^verbatim>\<open>upsert\<close> are \<^verbatim>\<open>async\<close>: the \<^verbatim>\<open>throw err\<close>
  before the call rejects their promise; otherwise they call the dispatch layer, suspend at
  the \<^verbatim>\<open>await\<close> of its promise, and then rethrow its error or return the response. A failure
  of the awaited call is the rejection of its promise, which the \<^verbatim>\<open>await\<close> rethrows.
\<close>

definition UserDefinedFunctions_query_events ::
  "Helper \<Rightarrow> SqlQuerySpec option \<Rightarrow> FeedOptions option \<Rightarrow>
   (('w, 'qi) UserDefinedFunctions, 'w) state \<Rightarrow> event list" where
  "UserDefinedFunctions_query_events H query options s =
     (let (iterator, s1) = UserDefinedFunctions_query H query options s
      in map Calls (new_calls s s1) @ [Completes])"

definition UserDefinedFunctions_readAll_events ::
  "Helper \<Rightarrow> FeedOptions option \<Rightarrow> (('w, 'qi) UserDefinedFunctions, 'w) state \<Rightarrow> event list" where
  "UserDefinedFunctions_readAll_events H options s =
     UserDefinedFunctions_query_events H None options s"

definition fetch_events ::
  "('w, 'qi) QueryIterator \<Rightarrow> FeedOptions option \<Rightarrow>
   (('w, 'qi) UserDefinedFunctions, 'w) state \<Rightarrow> event list" where
  "fetch_events iterator innerOptions s =
     (let (r, s1) = qi_fetchFunctions iterator innerOptions s
      in map Calls (new_calls s s1) @ [completion r])"

definition UserDefinedFunctions_create_events ::
  "Helper \<Rightarrow> ref \<Rightarrow> RequestOptions option \<Rightarrow> (('w, 'qi) UserDefinedFunctions, 'w) state \<Rightarrow>
   event list" where
  "UserDefinedFunctions_create_events H body options s =
     (let s1 = s\<lparr>heap := (heap s)(body := stringify_body (heap s body))\<rparr>;
          (valid, err) = isResourceValid H (heap s1 body) []
      in if \<not> valid then [Fails]
         else
           let path = getPathFromLink H (c_url (udfs_container (self s1))) ''udfs'';
               id' = getIdFromLink H (c_url (udfs_container (self s1)));
               (r, s2) = clientContext_create (udfs_clientContext (self s1)) (heap s1 body)
                           path ''udfs'' id' None options s1
           in map Calls (new_calls s1 s2) @ [Awaits] @
              (case r of Inl e \<Rightarrow> [Fails] | Inr response \<Rightarrow> [Completes]))"

definition UserDefinedFunctions_upsert_events ::
  "Helper \<Rightarrow> ref \<Rightarrow> RequestOptions option \<Rightarrow> (('w, 'qi) UserDefinedFunctions, 'w) state \<Rightarrow>
   event list" where
  "UserDefinedFunctions_upsert_events H body options s =
     (let s1 = s\<lparr>heap := (heap s)(body := stringify_body (heap s body))\<rparr>;
          (valid, err) = isResourceValid H (heap s1 body) []
      in if \<not> valid then [Fails]
         else
           let path = getPathFromLink H (c_url (udfs_container (self s1))) ''udfs'';
               id' = getIdFromLink H (c_url (udfs_container (self s1)));
               (r, s2) = clientContext_upsert (udfs_clientContext (self s1)) (heap s1 body)
                           path ''udfs'' id' None options s1
           in map Calls (new_calls s1 s2) @ [Awaits] @
              (case r of Inl e \<Rightarrow> [Fails] | Inr response \<Rightarrow> [Completes]))"

text \<open>
  The methods of \<^verbatim>\<open>Databases\<close> have no \<^verbatim>\<open>await\<close>: \<^verbatim>\<open>getDatabase\<close> returns the handle,
  the other three return what \<^verbatim>\<open>documentClient\<close> gives them.
\<close>

definition Databases_getDatabase_events ::
  "string \<Rightarrow> (('w, 'qi) Databases, 'w) state \<Rightarrow> event list" where
  "Databases_getDatabase_events id' s =
     (let (database, s1) = Databases_getDatabase id' s
      in map Calls (new_calls s s1) @ [Completes])"

definition Databases_query_events ::
  "SqlQuerySpec option \<Rightarrow> FeedOptions option \<Rightarrow> (('w, 'qi) Databases, 'w) state \<Rightarrow>
   event list" where
  "Databases_query_events query options s =
     (let (r, s1) = documentClient_queryDatabases (documentClient (dbs_client (self s)))
                      query options s
      in map Calls (new_calls s s1) @ [completion r])"

definition Databases_create_events ::
  "DatabaseDefinition \<Rightarrow> RequestOptions option \<Rightarrow> (('w, 'qi) Databases, 'w) state \<Rightarrow>
   event list" where
  "Databases_create_events body options s =
     (let (r, s1) = documentClient_createDatabase (documentClient (dbs_client (self s)))
                      body options s
      in map Calls (new_calls s s1) @ [completion r])"

definition Databases_read_events ::
  "FeedOptions option \<Rightarrow> (('w, 'qi) Databases, 'w) state \<Rightarrow> event list" where
  "Databases_read_events options s =
     (let (r, s1) = documentClient_readDatabases (documentClient (dbs_client (self s)))
                      options s
      in map Calls (new_calls s s1) @ [completion r])"

section \<open>A concrete service to run the model on\<close>

text \<open>
  Modelled from the spec: \<^verbatim>\<open>Helper\<close> is not among the source files. The spec says that
  a definition is invalid when a required field (\<^verbatim>\<open>id\<close>, \<^verbatim>\<open>body\<close>) is missing and that a
  resource path is the path of the container plus \<^verbatim>\<open>udfs\<close>. This instance does that; it
  is used only to evaluate the model at concrete inputs.
\<close>

definition sample_Helper :: Helper where
  "sample_Helper =
     \<lparr>isResourceValid = (\<lambda>d err.
        if def_id d = None then (False, err @ [(''message'', ''id is missing'')])
        else if def_body d = None then (False, err @ [(''message'', ''body is missing'')])
        else (True, err)),
      getPathFromLink = (\<lambda>link resourceType. ''/'' @ link @ ''/'' @ resourceType),
      getIdFromLink = (\<lambda>link. link)\<rparr>"

text \<open>
  A dispatch layer whose state is the number of requests the service will still answer:
  with none left every call fails with status 503, otherwise the service stores the
  definition under an id of its own.
\<close>

definition sample_clientContext :: "nat ClientContext" where
  "sample_clientContext =
     \<lparr>cc_create = (\<lambda>body path kind id' initialHeaders options w.
        if w = 0 then (Inl [(''code'', ''503'')], w)
        else (Inr \<lparr>res_result = body\<lparr>def_id := Some ''srv-udf-7''\<rparr>,
                   res_headers = [(''x-ms-request-charge'', ''1'')]\<rparr>, w - 1)),
      cc_upsert = (\<lambda>body path kind id' initialHeaders options w.
        if w = 0 then (Inl [(''code'', ''503'')], w)
        else (Inr \<lparr>res_result = body\<lparr>def_id := Some ''srv-udf-8''\<rparr>,
                   res_headers = [(''x-ms-request-charge'', ''2'')]\<rparr>, w - 1)),
      cc_queryFeed = (\<lambda>path kind id' selector query options w.
        if w = 0 then (Inl [(''code'', ''503'')], w)
        else (Inr \<lparr>res_result = selector (\<lambda>property. None), res_headers = []\<rparr>, w - 1))\<rparr>"

definition sample_documentClient :: "(nat, string) DocumentClient" where
  "sample_documentClient =
     \<lparr>dc_queryDatabases = (\<lambda>query options w.
        if w = 0 then (Inl [(''code'', ''503'')], w) else (Inr ''iterator:query'', w - 1)),
      dc_createDatabase = (\<lambda>body options w.
        if w = 0 then (Inl [(''code'', ''503'')], w)
        else (Inr \<lparr>res_result = body, res_headers = [(''etag'', ''1'')]\<rparr>, w - 1)),
      dc_readDatabases = (\<lambda>options w.
        if w = 0 then (Inl [(''code'', ''503'')], w) else (Inr ''iterator:read'', w - 1))\<rparr>"

definition sample_client :: "(nat, string) CosmosClient" where
  "sample_client = \<lparr>documentClient = sample_documentClient\<rparr>"

definition sample_container :: "(nat, string) Container" where
  "sample_container =
     \<lparr>c_database = \<lparr>db_client = sample_client, db_id = ''db1''\<rparr>,
      c_url = ''dbs/db1/colls/c1''\<rparr>"

text \<open>
  The caller's objects: reference 0 is a complete definition whose body is a function,
  reference 1 has a function body and no id, every other reference is an empty object.
\<close>

definition sample_heap :: "ref \<Rightarrow> UserDefinedFunctionDefinition" where
  "sample_heap r =
     (if r = 0 then \<lparr>def_id = Some ''tax'', def_body = Some (BodyFunction ''function (x) { return x; }'')\<rparr>
      else if r = 1 then \<lparr>def_id = None, def_body = Some (BodyFunction ''function () {}'')\<rparr>
      else \<lparr>def_id = None, def_body = None\<rparr>)"

definition sample_udfs_state ::
  "nat \<Rightarrow> ((nat, string) UserDefinedFunctions, nat) state" where
  "sample_udfs_state w =
     \<lparr>self = UserDefinedFunctions_new sample_container sample_clientContext,
      heap = sample_heap, world = w, calls = []\<rparr>"

definition sample_dbs_state :: "nat \<Rightarrow> ((nat, string) Databases, nat) state" where
  "sample_dbs_state w =
     \<lparr>self = \<lparr>dbs_client = sample_client\<rparr>, heap = sample_heap, world = w, calls = []\<rparr>"

section \<open>How a run unfolds\<close>

text \<open>
  The two branches of \<^verbatim>\<open>create\<close> and \<^verbatim>\<open>upsert\<close>, the fetch function of the iterator
  and the three forwarding methods of \<^verbatim>\<open>Databases\<close>, each as one equation.
\<close>

lemma create_invalid:
  assumes "\<not> fst (isResourceValid H (stringify_body (heap s body)) [])"
  shows "UserDefinedFunctions_create H body options s =
     (Inl (snd (isResourceValid H (stringify_body (heap s body)) [])),
      s\<lparr>heap := (heap s)(body := stringify_body (heap s body))\<rparr>)"
  using assms
  by (simp add: UserDefinedFunctions_create_def Let_def case_prod_beta)

lemma upsert_invalid:
  assumes "\<not> fst (isResourceValid H (stringify_body (heap s body)) [])"
  shows "UserDefinedFunctions_upsert H body options s =
     (Inl (snd (isResourceValid H (stringify_body (heap s body)) [])),
      s\<lparr>heap := (heap s)(body := stringify_body (heap s body))\<rparr>)"
  using assms
  by (simp add: UserDefinedFunctions_upsert_def Let_def case_prod_beta)

lemma create_valid_state:
  assumes "fst (isResourceValid H (stringify_body (heap s body)) [])"
  shows "snd (UserDefinedFunctions_create H body options s) =
     s\<lparr>heap := (heap s)(body := stringify_body (heap s body)),
       world := snd (cc_create (udfs_clientContext (self s)) (stringify_body (heap s body))
           (getPathFromLink H (c_url (udfs_container (self s))) ''udfs'') ''udfs''
           (getIdFromLink H (c_url (udfs_container (self s)))) None options (world s)),
       calls := calls s @ [CC_create (stringify_body (heap s body))
           (getPathFromLink H (c_url (udfs_container (self s))) ''udfs'') ''udfs''
           (getIdFromLink H (c_url (udfs_container (self s)))) None options]\<rparr>"
  using assms
  by (simp add: UserDefinedFunctions_create_def clientContext_create_def Let_def
      case_prod_beta split: sum.splits)

lemma upsert_valid_state:
  assumes "fst (isResourceValid H (stringify_body (heap s body)) [])"
  shows "snd (UserDefinedFunctions_upsert H body options s) =
     s\<lparr>heap := (heap s)(body := stringify_body (heap s body)),
       world := snd (cc_upsert (udfs_clientContext (self s)) (stringify_body (heap s body))
           (getPathFromLink H (c_url (udfs_container (self s))) ''udfs'') ''udfs''
           (getIdFromLink H (c_url (udfs_container (self s)))) None options (world s)),
       calls := calls s @ [CC_upsert (stringify_body (heap s body))
           (getPathFromLink H (c_url (udfs_container (self s))) ''udfs'') ''udfs''
           (getIdFromLink H (c_url (udfs_container (self s)))) None options]\<rparr>"
  using assms
  by (simp add: UserDefinedFunctions_upsert_def clientContext_upsert_def Let_def
      case_prod_beta split: sum.splits)

lemma create_valid_outcome:
  assumes "fst (isResourceValid H (stringify_body (heap s body)) [])"
  shows "fst (UserDefinedFunctions_create H body options s) =
     (case fst (cc_create (udfs_clientContext (self s)) (stringify_body (heap s body))
           (getPathFromLink H (c_url (udfs_container (self s))) ''udfs'') ''udfs''
           (getIdFromLink H (c_url (udfs_container (self s)))) None options (world s)) of
        Inl e \<Rightarrow> Inl e
      | Inr response \<Rightarrow>
          Inr \<lparr>resp_body = res_result response, resp_headers = res_headers response,
               resp_ref = \<lparr>udf_container = udfs_container (self s),
                           udf_id = def_id (res_result response),
                           udf_clientContext = udfs_clientContext (self s)\<rparr>,
               resp_userDefinedFunction = \<lparr>udf_container = udfs_container (self s),
                           udf_id = def_id (res_result response),
                           udf_clientContext = udfs_clientContext (self s)\<rparr>,
               resp_udf = \<lparr>udf_container = udfs_container (self s),
                           udf_id = def_id (res_result response),
                           udf_clientContext = udfs_clientContext (self s)\<rparr>\<rparr>)"
  using assms
  by (simp add: UserDefinedFunctions_create_def clientContext_create_def Let_def
      case_prod_beta split: sum.splits)

lemma upsert_valid_outcome:
  assumes "fst (isResourceValid H (stringify_body (heap s body)) [])"
  shows "fst (UserDefinedFunctions_upsert H body options s) =
     (case fst (cc_upsert (udfs_clientContext (self s)) (stringify_body (heap s body))
           (getPathFromLink H (c_url (udfs_container (self s))) ''udfs'') ''udfs''
           (getIdFromLink H (c_url (udfs_container (self s)))) None options (world s)) of
        Inl e \<Rightarrow> Inl e
      | Inr response \<Rightarrow>
          Inr \<lparr>resp_body = res_result response, resp_headers = res_headers response,
               resp_ref = \<lparr>udf_container = udfs_container (self s),
                           udf_id = def_id (res_result response),
                           udf_clientContext = udfs_clientContext (self s)\<rparr>,
               resp_userDefinedFunction = \<lparr>udf_container = udfs_container (self s),
                           udf_id = def_id (res_result response),
                           udf_clientContext = udfs_clientContext (self s)\<rparr>,
               resp_udf = \<lparr>udf_container = udfs_container (self s),
                           udf_id = def_id (res_result response),
                           udf_clientContext = udfs_clientContext (self s)\<rparr>\<rparr>)"
  using assms
  by (simp add: UserDefinedFunctions_upsert_def clientContext_upsert_def Let_def
      case_prod_beta split: sum.splits)

lemma query_run:
  "snd (UserDefinedFunctions_query H query options s) = s"
  "qi_fetchFunctions (fst (UserDefinedFunctions_query H query options s)) innerOptions s' =
     clientContext_queryFeed (udfs_clientContext (self s'))
       (getPathFromLink H (c_url (udfs_container (self s))) ''udfs'') ''udfs''
       (getIdFromLink H (c_url (udfs_container (self s))))
       (\<lambda>result. result ''UserDefinedFunctions'') query innerOptions s'"
  by (simp_all add: UserDefinedFunctions_query_def Let_def)

lemma queryFeed_run:
  "fst (clientContext_queryFeed cc path kind id' selector query options s) =
     fst (cc_queryFeed cc path kind id' selector query options (world s))"
  "snd (clientContext_queryFeed cc path kind id' selector query options s) =
     s\<lparr>world := snd (cc_queryFeed cc path kind id' selector query options (world s)),
       calls := calls s @ [CC_queryFeed path kind id' selector query options]\<rparr>"
  by (simp_all add: clientContext_queryFeed_def case_prod_beta)

lemma Databases_query_run:
  "Databases_query query options s =
     (fst (dc_queryDatabases (documentClient (dbs_client (self s))) query options (world s)),
      s\<lparr>world := snd (dc_queryDatabases (documentClient (dbs_client (self s))) query options
                        (world s)),
        calls := calls s @ [DC_queryDatabases query options]\<rparr>)"
  by (simp add: Databases_query_def documentClient_queryDatabases_def case_prod_beta)

lemma Databases_create_run:
  "Databases_create body options s =
     (fst (dc_createDatabase (documentClient (dbs_client (self s))) body options (world s)),
      s\<lparr>world := snd (dc_createDatabase (documentClient (dbs_client (self s))) body options
                        (world s)),
        calls := calls s @ [DC_createDatabase body options]\<rparr>)"
  by (simp add: Databases_create_def documentClient_createDatabase_def case_prod_beta)

lemma Databases_read_run:
  "Databases_read options s =
     (fst (dc_readDatabases (documentClient (dbs_client (self s))) options (world s)),
      s\<lparr>world := snd (dc_readDatabases (documentClient (dbs_client (self s))) options
                        (world s)),
        calls := calls s @ [DC_readDatabases options]\<rparr>)"
  by (simp add: Databases_read_def documentClient_readDatabases_def case_prod_beta)

text \<open>The events of each method, as one equation each.\<close>

lemma create_events_run:
  "UserDefinedFunctions_create_events H body options s =
     (if fst (isResourceValid H (stringify_body (heap s body)) [])
      then [Calls (CC_create (stringify_body (heap s body))
              (getPathFromLink H (c_url (udfs_container (self s))) ''udfs'') ''udfs''
              (getIdFromLink H (c_url (udfs_container (self s)))) None options),
            Awaits,
            completion (fst (cc_create (udfs_clientContext (self s))
              (stringify_body (heap s body))
              (getPathFromLink H (c_url (udfs_container (self s))) ''udfs'') ''udfs''
              (getIdFromLink H (c_url (udfs_container (self s)))) None options (world s)))]
      else [Fails])"
  by (simp add: UserDefinedFunctions_create_events_def clientContext_create_def new_calls_def
      Let_def case_prod_beta split: sum.splits)

lemma upsert_events_run:
  "UserDefinedFunctions_upsert_events H body options s =
     (if fst (isResourceValid H (stringify_body (heap s body)) [])
      then [Calls (CC_upsert (stringify_body (heap s body))
              (getPathFromLink H (c_url (udfs_container (self s))) ''udfs'') ''udfs''
              (getIdFromLink H (c_url (udfs_container (self s)))) None options),
            Awaits,
            completion (fst (cc_upsert (udfs_clientContext (self s))
              (stringify_body (heap s body))
              (getPathFromLink H (c_url (udfs_container (self s))) ''udfs'') ''udfs''
              (getIdFromLink H (c_url (udfs_container (self s)))) None options (world s)))]
      else [Fails])"
  by (simp add: UserDefinedFunctions_upsert_events_def clientContext_upsert_def new_calls_def
      Let_def case_prod_beta split: sum.splits)

lemma sync_events_run:
  "UserDefinedFunctions_query_events H query feedOptions s = [Completes]"
  "UserDefinedFunctions_readAll_events H feedOptions s = [Completes]"
  "Databases_getDatabase_events id' d = [Completes]"
  by (simp_all add: UserDefinedFunctions_query_events_def UserDefinedFunctions_readAll_events_def
      Databases_getDatabase_events_def UserDefinedFunctions_query_def Databases_getDatabase_def
      new_calls_def Let_def)

lemma fetch_events_run:
  "fetch_events (fst (UserDefinedFunctions_query H query feedOptions s)) innerOptions s' =
     [Calls (CC_queryFeed
        (getPathFromLink H (c_url (udfs_container (self s))) ''udfs'') ''udfs''
        (getIdFromLink H (c_url (udfs_container (self s))))
        (\<lambda>result. result ''UserDefinedFunctions'') query innerOptions),
      completion (fst (cc_queryFeed (udfs_clientContext (self s'))
        (getPathFromLink H (c_url (udfs_container (self s))) ''udfs'') ''udfs''
        (getIdFromLink H (c_url (udfs_container (self s))))
        (\<lambda>result. result ''UserDefinedFunctions'') query innerOptions (world s')))]"
  by (simp add: fetch_events_def query_run queryFeed_run new_calls_def case_prod_beta)

lemma Databases_events_run:
  "Databases_query_events query feedOptions d =
     [Calls (DC_queryDatabases query feedOptions),
      completion (fst (dc_queryDatabases (documentClient (dbs_client (self d))) query
                         feedOptions (world d)))]"
  "Databases_create_events dbBody options d =
     [Calls (DC_createDatabase dbBody options),
      completion (fst (dc_createDatabase (documentClient (dbs_client (self d))) dbBody
                         options (world d)))]"
  "Databases_read_events feedOptions d =
     [Calls (DC_readDatabases feedOptions),
      completion (fst (dc_readDatabases (documentClient (dbs_client (self d))) feedOptions
                         (world d)))]"
  by (simp_all add: Databases_query_events_def Databases_create_events_def
      Databases_read_events_def documentClient_queryDatabases_def
      documentClient_createDatabase_def documentClient_readDatabases_def new_calls_def
      case_prod_beta)

lemma completion_facts:
  "is_completion (completion r)"
  "\<not> is_await (completion r)"
  "calls_of [completion r] = []"
  "(completion r = Fails) = isl r"
  by (cases r; simp)+

text \<open>The definitions that evaluating a run of the concrete service unfolds.\<close>

lemmas sample_defs = sample_Helper_def sample_clientContext_def sample_documentClient_def
  sample_client_def sample_container_def sample_heap_def sample_udfs_state_def
  sample_dbs_state_def UserDefinedFunctions_new_def stringify_body_def

section \<open>Validation comes before dispatch\<close>

text \<open>
  Claim C1. When \<^verbatim>\<open>Helper.isResourceValid\<close> answers false for the definition (as it stands
  after the first statement of the method), \<^verbatim>\<open>create\<close> and \<^verbatim>\<open>upsert\<close> throw the error
  object that the method made itself (\<^verbatim>\<open>{}\<close>, as the helper left it), and the dispatch
  layer is not called: the log of calls and the state of the dispatch layer are what
  they were.
\<close>

theorem invalid_definition_rejected_before_dispatch:
  assumes "\<not> fst (isResourceValid H (stringify_body (heap s body)) [])"
  shows "fst (UserDefinedFunctions_create H body options s) =
           Inl (snd (isResourceValid H (stringify_body (heap s body)) [])) \<and>
         calls (snd (UserDefinedFunctions_create H body options s)) = calls s \<and>
         world (snd (UserDefinedFunctions_create H body options s)) = world s \<and>
         fst (UserDefinedFunctions_upsert H body options s) =
           Inl (snd (isResourceValid H (stringify_body (heap s body)) [])) \<and>
         calls (snd (UserDefinedFunctions_upsert H body options s)) = calls s \<and>
         world (snd (UserDefinedFunctions_upsert H body options s)) = world s"
  using assms by (simp add: create_invalid upsert_invalid)

text \<open>
  The definition at reference 1 has no id: the concrete helper rejects it, both methods
  throw its error object and nothing is dispatched.
\<close>

theorem invalid_definition_rejected_witness:
  "\<not> fst (isResourceValid sample_Helper (stringify_body (heap (sample_udfs_state 5) 1)) []) \<and>
   fst (UserDefinedFunctions_create sample_Helper 1 None (sample_udfs_state 5)) =
     Inl [(''message'', ''id is missing'')] \<and>
   calls (snd (UserDefinedFunctions_create sample_Helper 1 None (sample_udfs_state 5))) = [] \<and>
   world (snd (UserDefinedFunctions_create sample_Helper 1 None (sample_udfs_state 5))) = 5 \<and>
   fst (UserDefinedFunctions_upsert sample_Helper 1 None (sample_udfs_state 5)) =
     Inl [(''message'', ''id is missing'')] \<and>
   calls (snd (UserDefinedFunctions_upsert sample_Helper 1 None (sample_udfs_state 5))) = [] \<and>
   world (snd (UserDefinedFunctions_upsert sample_Helper 1 None (sample_udfs_state 5))) = 5"
  using invalid_definition_rejected_before_dispatch
    [where H = sample_Helper and s = "sample_udfs_state 5" and body = 1 and options = None]
  by (simp add: sample_defs)

section \<open>The response of a successful create or upsert\<close>

text \<open>
  Claim C2. For a definition that passes validation, when the dispatch layer resolves
  with \<open>response\<close>, \<^verbatim>\<open>create\<close> (and likewise \<^verbatim>\<open>upsert\<close>) resolves with a response whose
  body is \<^verbatim>\<open>response.result\<close> (so its id is the id the server assigned), whose headers are
  \<^verbatim>\<open>response.headers\<close>, and whose fields \<^verbatim>\<open>ref\<close>, \<^verbatim>\<open>userDefinedFunction\<close> and \<^verbatim>\<open>udf\<close>
  are the handle made of the parent container, \<^verbatim>\<open>response.result.id\<close> and the client
  context of the facade.
\<close>

theorem successful_create_upsert_response:
  "(fst (isResourceValid H (stringify_body (heap s body)) []) \<and>
    fst (cc_create (udfs_clientContext (self s)) (stringify_body (heap s body))
          (getPathFromLink H (c_url (udfs_container (self s))) ''udfs'') ''udfs''
          (getIdFromLink H (c_url (udfs_container (self s)))) None options (world s))
      = Inr response
    \<longrightarrow> fst (UserDefinedFunctions_create H body options s) =
          Inr \<lparr>resp_body = res_result response,
               resp_headers = res_headers response,
               resp_ref = \<lparr>udf_container = udfs_container (self s),
                           udf_id = def_id (res_result response),
                           udf_clientContext = udfs_clientContext (self s)\<rparr>,
               resp_userDefinedFunction = \<lparr>udf_container = udfs_container (self s),
                           udf_id = def_id (res_result response),
                           udf_clientContext = udfs_clientContext (self s)\<rparr>,
               resp_udf = \<lparr>udf_container = udfs_container (self s),
                           udf_id = def_id (res_result response),
                           udf_clientContext = udfs_clientContext (self s)\<rparr>\<rparr>) \<and>
   (fst (isResourceValid H (stringify_body (heap s body)) []) \<and>
    fst (cc_upsert (udfs_clientContext (self s)) (stringify_body (heap s body))
          (getPathFromLink H (c_url (udfs_container (self s))) ''udfs'') ''udfs''
          (getIdFromLink H (c_url (udfs_container (self s)))) None options (world s))
      = Inr response'
    \<longrightarrow> fst (UserDefinedFunctions_upsert H body options s) =
          Inr \<lparr>resp_body = res_result response',
               resp_headers = res_headers response',
               resp_ref = \<lparr>udf_container = udfs_container (self s),
                           udf_id = def_id (res_result response'),
                           udf_clientContext = udfs_clientContext (self s)\<rparr>,
               resp_userDefinedFunction = \<lparr>udf_container = udfs_container (self s),
                           udf_id = def_id (res_result response'),
                           udf_clientContext = udfs_clientContext (self s)\<rparr>,
               resp_udf = \<lparr>udf_container = udfs_container (self s),
                           udf_id = def_id (res_result response'),
                           udf_clientContext = udfs_clientContext (self s)\<rparr>\<rparr>)"
  by (simp add: create_valid_outcome upsert_valid_outcome)

text \<open>
  The complete definition at reference 0, on a service that answers: the server assigns
  its own id, and the handle carries that id, not the one the caller sent.
\<close>

theorem successful_create_upsert_response_witness:
  "fst (isResourceValid sample_Helper (stringify_body (heap (sample_udfs_state 5) 0)) []) \<and>
   fst (cc_create sample_clientContext (stringify_body (heap (sample_udfs_state 5) 0))
          ''/dbs/db1/colls/c1/udfs'' ''udfs'' ''dbs/db1/colls/c1'' None None 5) =
     Inr \<lparr>res_result = \<lparr>def_id = Some ''srv-udf-7'',
                          def_body = Some (BodyString ''function (x) { return x; }'')\<rparr>,
          res_headers = [(''x-ms-request-charge'', ''1'')]\<rparr> \<and>
   fst (UserDefinedFunctions_create sample_Helper 0 None (sample_udfs_state 5)) =
     Inr \<lparr>resp_body = \<lparr>def_id = Some ''srv-udf-7'',
                         def_body = Some (BodyString ''function (x) { return x; }'')\<rparr>,
          resp_headers = [(''x-ms-request-charge'', ''1'')],
          resp_ref = \<lparr>udf_container = sample_container, udf_id = Some ''srv-udf-7'',
                      udf_clientContext = sample_clientContext\<rparr>,
          resp_userDefinedFunction =
            \<lparr>udf_container = sample_container, udf_id = Some ''srv-udf-7'',
             udf_clientContext = sample_clientContext\<rparr>,
          resp_udf = \<lparr>udf_container = sample_container, udf_id = Some ''srv-udf-7'',
                      udf_clientContext = sample_clientContext\<rparr>\<rparr> \<and>
   fst (cc_upsert sample_clientContext (stringify_body (heap (sample_udfs_state 5) 0))
          ''/dbs/db1/colls/c1/udfs'' ''udfs'' ''dbs/db1/colls/c1'' None None 5) =
     Inr \<lparr>res_result = \<lparr>def_id = Some ''srv-udf-8'',
                          def_body = Some (BodyString ''function (x) { return x; }'')\<rparr>,
          res_headers = [(''x-ms-request-charge'', ''2'')]\<rparr> \<and>
   fst (UserDefinedFunctions_upsert sample_Helper 0 None (sample_udfs_state 5)) =
     Inr \<lparr>resp_body = \<lparr>def_id = Some ''srv-udf-8'',
                         def_body = Some (BodyString ''function (x) { return x; }'')\<rparr>,
          resp_headers = [(''x-ms-request-charge'', ''2'')],
          resp_ref = \<lparr>udf_container = sample_container, udf_id = Some ''srv-udf-8'',
                      udf_clientContext = sample_clientContext\<rparr>,
          resp_userDefinedFunction =
            \<lparr>udf_container = sample_container, udf_id = Some ''srv-udf-8'',
             udf_clientContext = sample_clientContext\<rparr>,
          resp_udf = \<lparr>udf_container = sample_container, udf_id = Some ''srv-udf-8'',
                      udf_clientContext = sample_clientContext\<rparr>\<rparr>"
  using successful_create_upsert_response
      [where H = sample_Helper and s = "sample_udfs_state 5" and body = 0 and options = None
         and response =
          "\<lparr>res_result = \<lparr>def_id = Some ''srv-udf-7'',
                          def_body = Some (BodyString ''function (x) { return x; }'')\<rparr>,
          res_headers = [(''x-ms-request-charge'', ''1'')]\<rparr>"
         and response' =
          "\<lparr>res_result = \<lparr>def_id = Some ''srv-udf-8'',
                          def_body = Some (BodyString ''function (x) { return x; }'')\<rparr>,
          res_headers = [(''x-ms-request-charge'', ''2'')]\<rparr>"]
  by (simp add: sample_defs)

section \<open>Errors of the dispatch layer\<close>

text \<open>
  Claim C3. Whenever the call that a facade method makes to the dispatch layer fails with
  an error \<open>e\<close> (\<^verbatim>\<open>clientContext.create\<close>, \<^verbatim>\<open>clientContext.upsert\<close>, the
  \<^verbatim>\<open>clientContext.queryFeed\<close> of the iterator's fetch function, and the three methods of
  \<^verbatim>\<open>documentClient\<close>), the facade method fails with that same \<open>e\<close>, and it has called the
  dispatch layer once: nothing is caught, wrapped, retried or transformed.
\<close>

theorem dispatch_errors_propagate_unchanged:
  "(fst (isResourceValid H (stringify_body (heap s body)) []) \<and>
    fst (cc_create (udfs_clientContext (self s)) (stringify_body (heap s body))
          (getPathFromLink H (c_url (udfs_container (self s))) ''udfs'') ''udfs''
          (getIdFromLink H (c_url (udfs_container (self s)))) None options (world s)) = Inl e
    \<longrightarrow> fst (UserDefinedFunctions_create H body options s) = Inl e \<and>
        length (new_calls s (snd (UserDefinedFunctions_create H body options s))) = 1) \<and>
   (fst (isResourceValid H (stringify_body (heap s body)) []) \<and>
    fst (cc_upsert (udfs_clientContext (self s)) (stringify_body (heap s body))
          (getPathFromLink H (c_url (udfs_container (self s))) ''udfs'') ''udfs''
          (getIdFromLink H (c_url (udfs_container (self s)))) None options (world s)) = Inl e
    \<longrightarrow> fst (UserDefinedFunctions_upsert H body options s) = Inl e \<and>
        length (new_calls s (snd (UserDefinedFunctions_upsert H body options s))) = 1) \<and>
   (fst (cc_queryFeed (udfs_clientContext (self s'))
          (getPathFromLink H (c_url (udfs_container (self s))) ''udfs'') ''udfs''
          (getIdFromLink H (c_url (udfs_container (self s))))
          (\<lambda>result. result ''UserDefinedFunctions'') query feedOptions (world s')) = Inl e
    \<longrightarrow> fst (qi_fetchFunctions (fst (UserDefinedFunctions_query H query options' s))
               feedOptions s') = Inl e \<and>
        length (new_calls s' (snd (qi_fetchFunctions
               (fst (UserDefinedFunctions_query H query options' s)) feedOptions s'))) = 1) \<and>
   (fst (dc_queryDatabases (documentClient (dbs_client (self d))) query feedOptions (world d))
      = Inl e
    \<longrightarrow> fst (Databases_query query feedOptions d) = Inl e \<and>
        length (new_calls d (snd (Databases_query query feedOptions d))) = 1) \<and>
   (fst (dc_createDatabase (documentClient (dbs_client (self d))) dbBody options (world d))
      = Inl e
    \<longrightarrow> fst (Databases_create dbBody options d) = Inl e \<and>
        length (new_calls d (snd (Databases_create dbBody options d))) = 1) \<and>
   (fst (dc_readDatabases (documentClient (dbs_client (self d))) feedOptions (world d)) = Inl e
    \<longrightarrow> fst (Databases_read feedOptions d) = Inl e \<and>
        length (new_calls d (snd (Databases_read feedOptions d))) = 1)"
  by (simp add: create_valid_outcome upsert_valid_outcome create_valid_state upsert_valid_state
      query_run queryFeed_run Databases_query_run Databases_create_run Databases_read_run
      new_calls_def)

text \<open>
  On a service that answers no request, every operation fails with the status 503 object
  of the dispatch layer.
\<close>

theorem dispatch_errors_propagate_witness:
  "fst (isResourceValid sample_Helper (stringify_body (heap (sample_udfs_state 0) 0)) []) \<and>
   fst (cc_create sample_clientContext (stringify_body (heap (sample_udfs_state 0) 0))
          ''/dbs/db1/colls/c1/udfs'' ''udfs'' ''dbs/db1/colls/c1'' None None 0)
     = Inl [(''code'', ''503'')] \<and>
   fst (UserDefinedFunctions_create sample_Helper 0 None (sample_udfs_state 0))
     = Inl [(''code'', ''503'')] \<and>
   fst (cc_upsert sample_clientContext (stringify_body (heap (sample_udfs_state 0) 0))
          ''/dbs/db1/colls/c1/udfs'' ''udfs'' ''dbs/db1/colls/c1'' None None 0)
     = Inl [(''code'', ''503'')] \<and>
   fst (UserDefinedFunctions_upsert sample_Helper 0 None (sample_udfs_state 0))
     = Inl [(''code'', ''503'')] \<and>
   fst (cc_queryFeed sample_clientContext ''/dbs/db1/colls/c1/udfs'' ''udfs''
          ''dbs/db1/colls/c1'' (\<lambda>result. result ''UserDefinedFunctions'') None None 0)
     = Inl [(''code'', ''503'')] \<and>
   fst (qi_fetchFunctions
          (fst (UserDefinedFunctions_query sample_Helper None None (sample_udfs_state 0)))
          None (sample_udfs_state 0))
     = Inl [(''code'', ''503'')] \<and>
   fst (dc_queryDatabases sample_documentClient None None 0) = Inl [(''code'', ''503'')] \<and>
   fst (Databases_query None None (sample_dbs_state 0)) = Inl [(''code'', ''503'')] \<and>
   fst (dc_createDatabase sample_documentClient \<lparr>dbdef_id = Some ''db2''\<rparr> None 0)
     = Inl [(''code'', ''503'')] \<and>
   fst (Databases_create \<lparr>dbdef_id = Some ''db2''\<rparr> None (sample_dbs_state 0))
     = Inl [(''code'', ''503'')] \<and>
   fst (dc_readDatabases sample_documentClient None 0) = Inl [(''code'', ''503'')] \<and>
   fst (Databases_read None (sample_dbs_state 0)) = Inl [(''code'', ''503'')]"
  using dispatch_errors_propagate_unchanged
    [where H = sample_Helper and s = "sample_udfs_state 0" and body = 0 and options = None
       and e = "[(''code'', ''503'')]" and s' = "sample_udfs_state 0" and query = None
       and feedOptions = None and options' = None and d = "sample_dbs_state 0"
       and dbBody = "\<lparr>dbdef_id = Some ''db2''\<rparr>"]
  by (simp add: sample_defs)

section \<open>Resource path and item kind\<close>

text \<open>
  Claim C4. Every call that \<^verbatim>\<open>create\<close>, \<^verbatim>\<open>upsert\<close> and the iterators of \<^verbatim>\<open>query\<close> and
  \<^verbatim>\<open>readAll\<close> make to the dispatch layer carries the path \<^verbatim>\<open>Helper.getPathFromLink(this.container.url, "udfs")\<close>
  and the item kind \<^verbatim>\<open>"udfs"\<close> (and the id \<^verbatim>\<open>Helper.getIdFromLink(this.container.url)\<close>).
  \<^verbatim>\<open>create\<close> and \<^verbatim>\<open>upsert\<close> make that call when the definition is valid and none
  otherwise; \<^verbatim>\<open>query\<close> and \<^verbatim>\<open>readAll\<close> themselves make none, each fetch of their
  iterator makes one. The call reaches the dispatch layer: the state of the dispatch
  layer after the method is the one that \<^verbatim>\<open>clientContext.create\<close> (\<^verbatim>\<open>upsert\<close>,
  \<^verbatim>\<open>queryFeed\<close>) leaves when applied to exactly these arguments, the error the method
  fails with is the error of that application, and the body and headers of the response
  it resolves with are the result and headers of that application.
\<close>

theorem udfs_methods_address_container_udfs_path:
  "calls (snd (UserDefinedFunctions_create H body options s)) =
     (if fst (isResourceValid H (stringify_body (heap s body)) [])
      then calls s @ [CC_create (stringify_body (heap s body))
             (getPathFromLink H (c_url (udfs_container (self s))) ''udfs'') ''udfs''
             (getIdFromLink H (c_url (udfs_container (self s)))) None options]
      else calls s) \<and>
   world (snd (UserDefinedFunctions_create H body options s)) =
     (if fst (isResourceValid H (stringify_body (heap s body)) [])
      then snd (cc_create (udfs_clientContext (self s)) (stringify_body (heap s body))
             (getPathFromLink H (c_url (udfs_container (self s))) ''udfs'') ''udfs''
             (getIdFromLink H (c_url (udfs_container (self s)))) None options (world s))
      else world s) \<and>
   (case fst (UserDefinedFunctions_create H body options s) of
      Inl e \<Rightarrow>
        (if fst (isResourceValid H (stringify_body (heap s body)) [])
         then fst (cc_create (udfs_clientContext (self s)) (stringify_body (heap s body))
                (getPathFromLink H (c_url (udfs_container (self s))) ''udfs'') ''udfs''
                (getIdFromLink H (c_url (udfs_container (self s)))) None options (world s))
              = Inl e
         else e = snd (isResourceValid H (stringify_body (heap s body)) []))
    | Inr r \<Rightarrow>
        fst (isResourceValid H (stringify_body (heap s body)) []) \<and>
        fst (cc_create (udfs_clientContext (self s)) (stringify_body (heap s body))
               (getPathFromLink H (c_url (udfs_container (self s))) ''udfs'') ''udfs''
               (getIdFromLink H (c_url (udfs_container (self s)))) None options (world s))
          = Inr \<lparr>res_result = resp_body r, res_headers = resp_headers r\<rparr>) \<and>
   calls (snd (UserDefinedFunctions_upsert H body options s)) =
     (if fst (isResourceValid H (stringify_body (heap s body)) [])
      then calls s @ [CC_upsert (stringify_body (heap s body))
             (getPathFromLink H (c_url (udfs_container (self s))) ''udfs'') ''udfs''
             (getIdFromLink H (c_url (udfs_container (self s)))) None options]
      else calls s) \<and>
   world (snd (UserDefinedFunctions_upsert H body options s)) =
     (if fst (isResourceValid H (stringify_body (heap s body)) [])
      then snd (cc_upsert (udfs_clientContext (self s)) (stringify_body (heap s body))
             (getPathFromLink H (c_url (udfs_container (self s))) ''udfs'') ''udfs''
             (getIdFromLink H (c_url (udfs_container (self s)))) None options (world s))
      else world s) \<and>
   (case fst (UserDefinedFunctions_upsert H body options s) of
      Inl e \<Rightarrow>
        (if fst (isResourceValid H (stringify_body (heap s body)) [])
         then fst (cc_upsert (udfs_clientContext (self s)) (stringify_body (heap s body))
                (getPathFromLink H (c_url (udfs_container (self s))) ''udfs'') ''udfs''
                (getIdFromLink H (c_url (udfs_container (self s)))) None options (world s))
              = Inl e
         else e = snd (isResourceValid H (stringify_body (heap s body)) []))
    | Inr r \<Rightarrow>
        fst (isResourceValid H (stringify_body (heap s body)) []) \<and>
        fst (cc_upsert (udfs_clientContext (self s)) (stringify_body (heap s body))
               (getPathFromLink H (c_url (udfs_container (self s))) ''udfs'') ''udfs''
               (getIdFromLink H (c_url (udfs_container (self s)))) None options (world s))
          = Inr \<lparr>res_result = resp_body r, res_headers = resp_headers r\<rparr>) \<and>
   calls (snd (UserDefinedFunctions_query H query feedOptions s)) = calls s \<and>
   world (snd (UserDefinedFunctions_query H query feedOptions s)) = world s \<and>
   qi_fetchFunctions (fst (UserDefinedFunctions_query H query feedOptions s)) innerOptions s' =
     (fst (cc_queryFeed (udfs_clientContext (self s'))
             (getPathFromLink H (c_url (udfs_container (self s))) ''udfs'') ''udfs''
             (getIdFromLink H (c_url (udfs_container (self s))))
             (\<lambda>result. result ''UserDefinedFunctions'') query innerOptions (world s')),
      s'\<lparr>world := snd (cc_queryFeed (udfs_clientContext (self s'))
             (getPathFromLink H (c_url (udfs_container (self s))) ''udfs'') ''udfs''
             (getIdFromLink H (c_url (udfs_container (self s))))
             (\<lambda>result. result ''UserDefinedFunctions'') query innerOptions (world s')),
         calls := calls s' @ [CC_queryFeed
             (getPathFromLink H (c_url (udfs_container (self s))) ''udfs'') ''udfs''
             (getIdFromLink H (c_url (udfs_container (self s))))
             (\<lambda>result. result ''UserDefinedFunctions'') query innerOptions]\<rparr>) \<and>
   calls (snd (UserDefinedFunctions_readAll H feedOptions s)) = calls s \<and>
   world (snd (UserDefinedFunctions_readAll H feedOptions s)) = world s \<and>
   qi_fetchFunctions (fst (UserDefinedFunctions_readAll H feedOptions s)) innerOptions s' =
     (fst (cc_queryFeed (udfs_clientContext (self s'))
             (getPathFromLink H (c_url (udfs_container (self s))) ''udfs'') ''udfs''
             (getIdFromLink H (c_url (udfs_container (self s))))
             (\<lambda>result. result ''UserDefinedFunctions'') None innerOptions (world s')),
      s'\<lparr>world := snd (cc_queryFeed (udfs_clientContext (self s'))
             (getPathFromLink H (c_url (udfs_container (self s))) ''udfs'') ''udfs''
             (getIdFromLink H (c_url (udfs_container (self s))))
             (\<lambda>result. result ''UserDefinedFunctions'') None innerOptions (world s')),
         calls := calls s' @ [CC_queryFeed
             (getPathFromLink H (c_url (udfs_container (self s))) ''udfs'') ''udfs''
             (getIdFromLink H (c_url (udfs_container (self s))))
             (\<lambda>result. result ''UserDefinedFunctions'') None innerOptions]\<rparr>)"
proof (cases "fst (isResourceValid H (stringify_body (heap s body)) [])")
  case True
  then show ?thesis
    by (simp add: prod_eq_iff create_valid_state upsert_valid_state create_valid_outcome
        upsert_valid_outcome UserDefinedFunctions_readAll_def query_run queryFeed_run
        split: sum.splits)
next
  case False
  then show ?thesis
    by (simp add: prod_eq_iff create_invalid upsert_invalid UserDefinedFunctions_readAll_def
        query_run queryFeed_run)
qed

text \<open>
  The calls logged for the container \<^verbatim>\<open>dbs/db1/colls/c1\<close>, and the state in which each
  leaves the dispatch layer: one request answered.
\<close>

theorem udfs_methods_address_container_udfs_path_witness:
  "calls (snd (UserDefinedFunctions_create sample_Helper 0 None (sample_udfs_state 5))) =
     [CC_create \<lparr>def_id = Some ''tax'',
                 def_body = Some (BodyString ''function (x) { return x; }'')\<rparr>
        ''/dbs/db1/colls/c1/udfs'' ''udfs'' ''dbs/db1/colls/c1'' None None] \<and>
   world (snd (UserDefinedFunctions_create sample_Helper 0 None (sample_udfs_state 5))) = 4 \<and>
   snd (cc_create sample_clientContext
          \<lparr>def_id = Some ''tax'',
            def_body = Some (BodyString ''function (x) { return x; }'')\<rparr>
          ''/dbs/db1/colls/c1/udfs'' ''udfs'' ''dbs/db1/colls/c1'' None None 5) = 4 \<and>
   calls (snd (UserDefinedFunctions_upsert sample_Helper 0 None (sample_udfs_state 5))) =
     [CC_upsert \<lparr>def_id = Some ''tax'',
                 def_body = Some (BodyString ''function (x) { return x; }'')\<rparr>
        ''/dbs/db1/colls/c1/udfs'' ''udfs'' ''dbs/db1/colls/c1'' None None] \<and>
   world (snd (UserDefinedFunctions_upsert sample_Helper 0 None (sample_udfs_state 5))) = 4 \<and>
   calls (snd (UserDefinedFunctions_query sample_Helper None None (sample_udfs_state 5))) = [] \<and>
   calls (snd (qi_fetchFunctions
                 (fst (UserDefinedFunctions_query sample_Helper None None (sample_udfs_state 5)))
                 None (sample_udfs_state 5))) =
     [CC_queryFeed ''/dbs/db1/colls/c1/udfs'' ''udfs'' ''dbs/db1/colls/c1''
        (\<lambda>result. result ''UserDefinedFunctions'') None None] \<and>
   world (snd (qi_fetchFunctions
                 (fst (UserDefinedFunctions_query sample_Helper None None (sample_udfs_state 5)))
                 None (sample_udfs_state 5))) = 4"
  using udfs_methods_address_container_udfs_path
    [where H = sample_Helper and body = 0 and options = None and s = "sample_udfs_state 5"
       and query = None and feedOptions = None and innerOptions = None
       and s' = "sample_udfs_state 5"]
  by (simp add: sample_defs UserDefinedFunctions_readAll_def)

section \<open>What each method does to request and response\<close>

text \<open>
  Claim C5 says that every facade method validates or reshapes its request, delegates, and
  reshapes the response. \<^verbatim>\<open>Databases.create\<close> does neither: a definition without an id
  reaches \<^verbatim>\<open>documentClient.createDatabase\<close> as it was given, and what the caller gets is
  exactly what \<^verbatim>\<open>createDatabase\<close> produced.
\<close>

theorem Databases_create_forwards_verbatim_counterexample:
  "fst (Databases_create \<lparr>dbdef_id = None\<rparr> None (sample_dbs_state 5)) =
     fst (dc_createDatabase sample_documentClient \<lparr>dbdef_id = None\<rparr> None 5) \<and>
   fst (Databases_create \<lparr>dbdef_id = None\<rparr> None (sample_dbs_state 5)) =
     Inr \<lparr>res_result = \<lparr>dbdef_id = None\<rparr>, res_headers = [(''etag'', ''1'')]\<rparr> \<and>
   calls (snd (Databases_create \<lparr>dbdef_id = None\<rparr> None (sample_dbs_state 5))) =
     [DC_createDatabase \<lparr>dbdef_id = None\<rparr> None]"
  by (simp add: Databases_create_run sample_dbs_state_def sample_client_def
      sample_documentClient_def)

text \<open>
  Claim C5, amended. \<^verbatim>\<open>UserDefinedFunctions.create\<close> and \<^verbatim>\<open>upsert\<close> reshape the request
  (the body becomes a string), validate it, delegate to the dispatch layer and reshape its
  response into body, headers and the three handle fields. \<^verbatim>\<open>Databases.query\<close>,
  \<^verbatim>\<open>create\<close> and \<^verbatim>\<open>read\<close> only delegate: the arguments reach \<^verbatim>\<open>documentClient\<close>
  unchanged and its outcome is returned unchanged. \<^verbatim>\<open>UserDefinedFunctions.query\<close> (and
  with it \<^verbatim>\<open>readAll\<close>) returns an iterator whose fetch function delegates to
  \<^verbatim>\<open>queryFeed\<close> and returns its outcome unchanged, and \<^verbatim>\<open>Databases.getDatabase\<close> returns
  a handle without delegating.
\<close>

theorem facade_methods_reshape_or_forward:
  "UserDefinedFunctions_create H body options s =
     (if fst (isResourceValid H (stringify_body (heap s body)) []) then
        (case fst (cc_create (udfs_clientContext (self s)) (stringify_body (heap s body))
                    (getPathFromLink H (c_url (udfs_container (self s))) ''udfs'') ''udfs''
                    (getIdFromLink H (c_url (udfs_container (self s)))) None options (world s)) of
           Inl e \<Rightarrow> Inl e
         | Inr response \<Rightarrow>
             Inr \<lparr>resp_body = res_result response, resp_headers = res_headers response,
                  resp_ref = \<lparr>udf_container = udfs_container (self s),
                              udf_id = def_id (res_result response),
                              udf_clientContext = udfs_clientContext (self s)\<rparr>,
                  resp_userDefinedFunction = \<lparr>udf_container = udfs_container (self s),
                              udf_id = def_id (res_result response),
                              udf_clientContext = udfs_clientContext (self s)\<rparr>,
                  resp_udf = \<lparr>udf_container = udfs_container (self s),
                              udf_id = def_id (res_result response),
                              udf_clientContext = udfs_clientContext (self s)\<rparr>\<rparr>,
         s\<lparr>heap := (heap s)(body := stringify_body (heap s body)),
           world := snd (cc_create (udfs_clientContext (self s)) (stringify_body (heap s body))
                    (getPathFromLink H (c_url (udfs_container (self s))) ''udfs'') ''udfs''
                    (getIdFromLink H (c_url (udfs_container (self s)))) None options (world s)),
           calls := calls s @ [CC_create (stringify_body (heap s body))
                    (getPathFromLink H (c_url (udfs_container (self s))) ''udfs'') ''udfs''
                    (getIdFromLink H (c_url (udfs_container (self s)))) None options]\<rparr>)
      else (Inl (snd (isResourceValid H (stringify_body (heap s body)) [])),
            s\<lparr>heap := (heap s)(body := stringify_body (heap s body))\<rparr>)) \<and>
   UserDefinedFunctions_upsert H body options s =
     (if fst (isResourceValid H (stringify_body (heap s body)) []) then
        (case fst (cc_upsert (udfs_clientContext (self s)) (stringify_body (heap s body))
                    (getPathFromLink H (c_url (udfs_container (self s))) ''udfs'') ''udfs''
                    (getIdFromLink H (c_url (udfs_container (self s)))) None options (world s)) of
           Inl e \<Rightarrow> Inl e
         | Inr response \<Rightarrow>
             Inr \<lparr>resp_body = res_result response, resp_headers = res_headers response,
                  resp_ref = \<lparr>udf_container = udfs_container (self s),
                              udf_id = def_id (res_result response),
                              udf_clientContext = udfs_clientContext (self s)\<rparr>,
                  resp_userDefinedFunction = \<lparr>udf_container = udfs_container (self s),
                              udf_id = def_id (res_result response),
                              udf_clientContext = udfs_clientContext (self s)\<rparr>,
                  resp_udf = \<lparr>udf_container = udfs_container (self s),
                              udf_id = def_id (res_result response),
                              udf_clientContext = udfs_clientContext (self s)\<rparr>\<rparr>,
         s\<lparr>heap := (heap s)(body := stringify_body (heap s body)),
           world := snd (cc_upsert (udfs_clientContext (self s)) (stringify_body (heap s body))
                    (getPathFromLink H (c_url (udfs_container (self s))) ''udfs'') ''udfs''
                    (getIdFromLink H (c_url (udfs_container (self s)))) None options (world s)),
           calls := calls s @ [CC_upsert (stringify_body (heap s body))
                    (getPathFromLink H (c_url (udfs_container (self s))) ''udfs'') ''udfs''
                    (getIdFromLink H (c_url (udfs_container (self s)))) None options]\<rparr>)
      else (Inl (snd (isResourceValid H (stringify_body (heap s body)) [])),
            s\<lparr>heap := (heap s)(body := stringify_body (heap s body))\<rparr>)) \<and>
   Databases_query query feedOptions d =
     (fst (dc_queryDatabases (documentClient (dbs_client (self d))) query feedOptions (world d)),
      d\<lparr>world := snd (dc_queryDatabases (documentClient (dbs_client (self d))) query
                        feedOptions (world d)),
        calls := calls d @ [DC_queryDatabases query feedOptions]\<rparr>) \<and>
   Databases_create dbBody options d =
     (fst (dc_createDatabase (documentClient (dbs_client (self d))) dbBody options (world d)),
      d\<lparr>world := snd (dc_createDatabase (documentClient (dbs_client (self d))) dbBody
                        options (world d)),
        calls := calls d @ [DC_createDatabase dbBody options]\<rparr>) \<and>
   Databases_read feedOptions d =
     (fst (dc_readDatabases (documentClient (dbs_client (self d))) feedOptions (world d)),
      d\<lparr>world := snd (dc_readDatabases (documentClient (dbs_client (self d))) feedOptions
                        (world d)),
        calls := calls d @ [DC_readDatabases feedOptions]\<rparr>) \<and>
   UserDefinedFunctions_query H query feedOptions s =
     (fst (UserDefinedFunctions_query H query feedOptions s), s) \<and>
   qi_fetchFunctions (fst (UserDefinedFunctions_query H query feedOptions s)) innerOptions s' =
     (fst (cc_queryFeed (udfs_clientContext (self s'))
             (getPathFromLink H (c_url (udfs_container (self s))) ''udfs'') ''udfs''
             (getIdFromLink H (c_url (udfs_container (self s))))
             (\<lambda>result. result ''UserDefinedFunctions'') query innerOptions (world s')),
      s'\<lparr>world := snd (cc_queryFeed (udfs_clientContext (self s'))
             (getPathFromLink H (c_url (udfs_container (self s))) ''udfs'') ''udfs''
             (getIdFromLink H (c_url (udfs_container (self s))))
             (\<lambda>result. result ''UserDefinedFunctions'') query innerOptions (world s')),
         calls := calls s' @ [CC_queryFeed
             (getPathFromLink H (c_url (udfs_container (self s))) ''udfs'') ''udfs''
             (getIdFromLink H (c_url (udfs_container (self s))))
             (\<lambda>result. result ''UserDefinedFunctions'') query innerOptions]\<rparr>) \<and>
   Databases_getDatabase id' d = (\<lparr>db_client = dbs_client (self d), db_id = id'\<rparr>, d)"
proof (cases "fst (isResourceValid H (stringify_body (heap s body)) [])")
  case True
  then show ?thesis
    by (simp add: prod_eq_iff create_valid_outcome upsert_valid_outcome create_valid_state
        upsert_valid_state Databases_query_run Databases_create_run Databases_read_run
        query_run queryFeed_run Databases_getDatabase_def)
next
  case False
  then show ?thesis
    by (simp add: prod_eq_iff create_invalid upsert_invalid Databases_query_run
        Databases_create_run Databases_read_run query_run queryFeed_run
        Databases_getDatabase_def)
qed

text \<open>
  A definition that is sent on after its body became a string, and a database definition
  that is sent on as it is.
\<close>

theorem facade_methods_reshape_or_forward_witness:
  "UserDefinedFunctions_create sample_Helper 0 None (sample_udfs_state 5) =
     (Inr \<lparr>resp_body = \<lparr>def_id = Some ''srv-udf-7'',
                          def_body = Some (BodyString ''function (x) { return x; }'')\<rparr>,
           resp_headers = [(''x-ms-request-charge'', ''1'')],
           resp_ref = \<lparr>udf_container = sample_container, udf_id = Some ''srv-udf-7'',
                       udf_clientContext = sample_clientContext\<rparr>,
           resp_userDefinedFunction =
             \<lparr>udf_container = sample_container, udf_id = Some ''srv-udf-7'',
              udf_clientContext = sample_clientContext\<rparr>,
           resp_udf = \<lparr>udf_container = sample_container, udf_id = Some ''srv-udf-7'',
                       udf_clientContext = sample_clientContext\<rparr>\<rparr>,
      (sample_udfs_state 5)
        \<lparr>heap := sample_heap
           (0 := \<lparr>def_id = Some ''tax'',
                   def_body = Some (BodyString ''function (x) { return x; }'')\<rparr>),
         world := 4,
         calls := [CC_create \<lparr>def_id = Some ''tax'',
                     def_body = Some (BodyString ''function (x) { return x; }'')\<rparr>
                   ''/dbs/db1/colls/c1/udfs'' ''udfs'' ''dbs/db1/colls/c1'' None None]\<rparr>) \<and>
   Databases_create \<lparr>dbdef_id = Some ''db2''\<rparr> None (sample_dbs_state 5) =
     (Inr \<lparr>res_result = \<lparr>dbdef_id = Some ''db2''\<rparr>, res_headers = [(''etag'', ''1'')]\<rparr>,
      (sample_dbs_state 5)
        \<lparr>world := 4, calls := [DC_createDatabase \<lparr>dbdef_id = Some ''db2''\<rparr> None]\<rparr>)"
  using facade_methods_reshape_or_forward
    [where H = sample_Helper and body = 0 and options = None and s = "sample_udfs_state 5"
       and query = None and feedOptions = None and innerOptions = None
       and s' = "sample_udfs_state 5" and d = "sample_dbs_state 5"
       and dbBody = "\<lparr>dbdef_id = Some ''db2''\<rparr>" and id' = "''db1''"]
  by (simp add: sample_defs)

section \<open>Calls to the dispatch layer per invocation\<close>

text \<open>
  Claim C6 says that every public operation suspends awaiting a network response.
  \<^verbatim>\<open>Databases.getDatabase\<close> returns a handle at once: it makes no call to the dispatch
  layer, leaves its state alone and never suspends. Neither does \<^verbatim>\<open>readAll\<close>, which
  returns an iterator that has not fetched yet.
\<close>

theorem getDatabase_awaits_no_dispatch_counterexample:
  "new_calls (sample_dbs_state 5) (snd (Databases_getDatabase ''db1'' (sample_dbs_state 5))) = [] \<and>
   world (snd (Databases_getDatabase ''db1'' (sample_dbs_state 5))) = 5 \<and>
   Databases_getDatabase_events ''db1'' (sample_dbs_state 5) = [Completes] \<and>
   suspensions (Databases_getDatabase_events ''db1'' (sample_dbs_state 5)) = 0 \<and>
   new_calls (sample_udfs_state 5)
     (snd (UserDefinedFunctions_readAll sample_Helper None (sample_udfs_state 5))) = [] \<and>
   world (snd (UserDefinedFunctions_readAll sample_Helper None (sample_udfs_state 5))) = 5 \<and>
   UserDefinedFunctions_readAll_events sample_Helper None (sample_udfs_state 5) = [Completes] \<and>
   suspensions (UserDefinedFunctions_readAll_events sample_Helper None (sample_udfs_state 5)) = 0"
  by (simp add: new_calls_def Databases_getDatabase_def UserDefinedFunctions_readAll_def
      query_run sync_events_run suspensions_def sample_udfs_state_def sample_dbs_state_def)

text \<open>
  Claim C6, amended. Every public operation is single-shot: per invocation it calls the
  dispatch layer at most once and completes exactly once, as its last step. Only
  \<^verbatim>\<open>UserDefinedFunctions.create\<close> and \<^verbatim>\<open>upsert\<close> suspend, once, and only for a definition
  that passes validation: they call the dispatch layer once, await it, and then resolve
  with the reshaped response or reject with the error of the dispatch layer; for a
  definition that fails validation they reject with the local error object, without a call
  and without suspending. \<^verbatim>\<open>Databases.query\<close>, \<^verbatim>\<open>create\<close> and \<^verbatim>\<open>read\<close> call
  \<^verbatim>\<open>documentClient\<close> once and hand back its outcome without an \<^verbatim>\<open>await\<close> of their own.
  \<^verbatim>\<open>UserDefinedFunctions.query\<close>, \<^verbatim>\<open>readAll\<close> and \<^verbatim>\<open>Databases.getDatabase\<close> return
  without a call and without suspending, and leave the state as it was; each fetch of the
  iterator that \<^verbatim>\<open>query\<close> returns calls \<^verbatim>\<open>queryFeed\<close> once and hands back its outcome.
  The theorem gives, for each operation, its events in order, the counts of completions,
  suspensions and calls, the agreement of the calls with the log, and the outcome and
  state in terms of the dispatch layer applied to the arguments of the call.
\<close>

theorem at_most_one_dispatch_per_invocation:
  "UserDefinedFunctions_create_events H body options s =
     (if fst (isResourceValid H (stringify_body (heap s body)) [])
      then [Calls (CC_create (stringify_body (heap s body))
              (getPathFromLink H (c_url (udfs_container (self s))) ''udfs'') ''udfs''
              (getIdFromLink H (c_url (udfs_container (self s)))) None options),
            Awaits,
            completion (fst (UserDefinedFunctions_create H body options s))]
      else [Fails]) \<and>
   UserDefinedFunctions_upsert_events H body options s =
     (if fst (isResourceValid H (stringify_body (heap s body)) [])
      then [Calls (CC_upsert (stringify_body (heap s body))
              (getPathFromLink H (c_url (udfs_container (self s))) ''udfs'') ''udfs''
              (getIdFromLink H (c_url (udfs_container (self s)))) None options),
            Awaits,
            completion (fst (UserDefinedFunctions_upsert H body options s))]
      else [Fails]) \<and>
   UserDefinedFunctions_query_events H query feedOptions s = [Completes] \<and>
   UserDefinedFunctions_readAll_events H feedOptions s = [Completes] \<and>
   Databases_getDatabase_events id' d = [Completes] \<and>
   Databases_query_events query feedOptions d =
     [Calls (DC_queryDatabases query feedOptions),
      completion (fst (Databases_query query feedOptions d))] \<and>
   Databases_create_events dbBody options d =
     [Calls (DC_createDatabase dbBody options),
      completion (fst (Databases_create dbBody options d))] \<and>
   Databases_read_events feedOptions d =
     [Calls (DC_readDatabases feedOptions),
      completion (fst (Databases_read feedOptions d))] \<and>
   fetch_events (fst (UserDefinedFunctions_query H query feedOptions s)) innerOptions s' =
     [Calls (CC_queryFeed
        (getPathFromLink H (c_url (udfs_container (self s))) ''udfs'') ''udfs''
        (getIdFromLink H (c_url (udfs_container (self s))))
        (\<lambda>result. result ''UserDefinedFunctions'') query innerOptions),
      completion (fst (qi_fetchFunctions
        (fst (UserDefinedFunctions_query H query feedOptions s)) innerOptions s'))] \<and>
   completions (UserDefinedFunctions_create_events H body options s) = 1 \<and>
   completions (UserDefinedFunctions_upsert_events H body options s) = 1 \<and>
   completions (UserDefinedFunctions_query_events H query feedOptions s) = 1 \<and>
   completions (UserDefinedFunctions_readAll_events H feedOptions s) = 1 \<and>
   completions (Databases_getDatabase_events id' d) = 1 \<and>
   completions (Databases_query_events query feedOptions d) = 1 \<and>
   completions (Databases_create_events dbBody options d) = 1 \<and>
   completions (Databases_read_events feedOptions d) = 1 \<and>
   completions (fetch_events (fst (UserDefinedFunctions_query H query feedOptions s))
                  innerOptions s') = 1 \<and>
   is_completion (last (UserDefinedFunctions_create_events H body options s)) \<and>
   is_completion (last (UserDefinedFunctions_upsert_events H body options s)) \<and>
   is_completion (last (Databases_query_events query feedOptions d)) \<and>
   is_completion (last (Databases_create_events dbBody options d)) \<and>
   is_completion (last (Databases_read_events feedOptions d)) \<and>
   is_completion (last (fetch_events (fst (UserDefinedFunctions_query H query feedOptions s))
                          innerOptions s')) \<and>
   (last (UserDefinedFunctions_create_events H body options s) = Fails) =
     isl (fst (UserDefinedFunctions_create H body options s)) \<and>
   (last (UserDefinedFunctions_upsert_events H body options s) = Fails) =
     isl (fst (UserDefinedFunctions_upsert H body options s)) \<and>
   (last (Databases_query_events query feedOptions d) = Fails) =
     isl (fst (Databases_query query feedOptions d)) \<and>
   (last (Databases_create_events dbBody options d) = Fails) =
     isl (fst (Databases_create dbBody options d)) \<and>
   (last (Databases_read_events feedOptions d) = Fails) =
     isl (fst (Databases_read feedOptions d)) \<and>
   (last (fetch_events (fst (UserDefinedFunctions_query H query feedOptions s))
            innerOptions s') = Fails) =
     isl (fst (qi_fetchFunctions (fst (UserDefinedFunctions_query H query feedOptions s))
                 innerOptions s')) \<and>
   suspensions (UserDefinedFunctions_create_events H body options s) =
     (if fst (isResourceValid H (stringify_body (heap s body)) []) then 1 else 0) \<and>
   suspensions (UserDefinedFunctions_upsert_events H body options s) =
     (if fst (isResourceValid H (stringify_body (heap s body)) []) then 1 else 0) \<and>
   suspensions (UserDefinedFunctions_query_events H query feedOptions s) = 0 \<and>
   suspensions (UserDefinedFunctions_readAll_events H feedOptions s) = 0 \<and>
   suspensions (Databases_getDatabase_events id' d) = 0 \<and>
   suspensions (Databases_query_events query feedOptions d) = 0 \<and>
   suspensions (Databases_create_events dbBody options d) = 0 \<and>
   suspensions (Databases_read_events feedOptions d) = 0 \<and>
   suspensions (fetch_events (fst (UserDefinedFunctions_query H query feedOptions s))
                  innerOptions s') = 0 \<and>
   calls_of (UserDefinedFunctions_create_events H body options s) =
     new_calls s (snd (UserDefinedFunctions_create H body options s)) \<and>
   calls_of (UserDefinedFunctions_upsert_events H body options s) =
     new_calls s (snd (UserDefinedFunctions_upsert H body options s)) \<and>
   calls_of (UserDefinedFunctions_query_events H query feedOptions s) =
     new_calls s (snd (UserDefinedFunctions_query H query feedOptions s)) \<and>
   calls_of (UserDefinedFunctions_readAll_events H feedOptions s) =
     new_calls s (snd (UserDefinedFunctions_readAll H feedOptions s)) \<and>
   calls_of (Databases_getDatabase_events id' d) =
     new_calls d (snd (Databases_getDatabase id' d)) \<and>
   calls_of (Databases_query_events query feedOptions d) =
     new_calls d (snd (Databases_query query feedOptions d)) \<and>
   calls_of (Databases_create_events dbBody options d) =
     new_calls d (snd (Databases_create dbBody options d)) \<and>
   calls_of (Databases_read_events feedOptions d) =
     new_calls d (snd (Databases_read feedOptions d)) \<and>
   calls_of (fetch_events (fst (UserDefinedFunctions_query H query feedOptions s))
               innerOptions s') =
     new_calls s' (snd (qi_fetchFunctions
       (fst (UserDefinedFunctions_query H query feedOptions s)) innerOptions s')) \<and>
   length (calls_of (UserDefinedFunctions_create_events H body options s)) \<le> 1 \<and>
   length (calls_of (UserDefinedFunctions_upsert_events H body options s)) \<le> 1 \<and>
   length (calls_of (UserDefinedFunctions_query_events H query feedOptions s)) = 0 \<and>
   length (calls_of (UserDefinedFunctions_readAll_events H feedOptions s)) = 0 \<and>
   length (calls_of (Databases_getDatabase_events id' d)) = 0 \<and>
   length (calls_of (Databases_query_events query feedOptions d)) = 1 \<and>
   length (calls_of (Databases_create_events dbBody options d)) = 1 \<and>
   length (calls_of (Databases_read_events feedOptions d)) = 1 \<and>
   length (calls_of (fetch_events (fst (UserDefinedFunctions_query H query feedOptions s))
                       innerOptions s')) = 1 \<and>
   UserDefinedFunctions_create H body options s =
     (if fst (isResourceValid H (stringify_body (heap s body)) []) then
        (case fst (cc_create (udfs_clientContext (self s)) (stringify_body (heap s body))
                    (getPathFromLink H (c_url (udfs_container (self s))) ''udfs'') ''udfs''
                    (getIdFromLink H (c_url (udfs_container (self s)))) None options (world s)) of
           Inl e \<Rightarrow> Inl e
         | Inr response \<Rightarrow>
             Inr \<lparr>resp_body = res_result response, resp_headers = res_headers response,
                  resp_ref = \<lparr>udf_container = udfs_container (self s),
                              udf_id = def_id (res_result response),
                              udf_clientContext = udfs_clientContext (self s)\<rparr>,
                  resp_userDefinedFunction = \<lparr>udf_container = udfs_container (self s),
                              udf_id = def_id (res_result response),
                              udf_clientContext = udfs_clientContext (self s)\<rparr>,
                  resp_udf = \<lparr>udf_container = udfs_container (self s),
                              udf_id = def_id (res_result response),
                              udf_clientContext = udfs_clientContext (self s)\<rparr>\<rparr>,
         s\<lparr>heap := (heap s)(body := stringify_body (heap s body)),
           world := snd (cc_create (udfs_clientContext (self s)) (stringify_body (heap s body))
                    (getPathFromLink H (c_url (udfs_container (self s))) ''udfs'') ''udfs''
                    (getIdFromLink H (c_url (udfs_container (self s)))) None options (world s)),
           calls := calls s @ [CC_create (stringify_body (heap s body))
                    (getPathFromLink H (c_url (udfs_container (self s))) ''udfs'') ''udfs''
                    (getIdFromLink H (c_url (udfs_container (self s)))) None options]\<rparr>)
      else (Inl (snd (isResourceValid H (stringify_body (heap s body)) [])),
            s\<lparr>heap := (heap s)(body := stringify_body (heap s body))\<rparr>)) \<and>
   UserDefinedFunctions_upsert H body options s =
     (if fst (isResourceValid H (stringify_body (heap s body)) []) then
        (case fst (cc_upsert (udfs_clientContext (self s)) (stringify_body (heap s body))
                    (getPathFromLink H (c_url (udfs_container (self s))) ''udfs'') ''udfs''
                    (getIdFromLink H (c_url (udfs_container (self s)))) None options (world s)) of
           Inl e \<Rightarrow> Inl e
         | Inr response \<Rightarrow>
             Inr \<lparr>resp_body = res_result response, resp_headers = res_headers response,
                  resp_ref = \<lparr>udf_container = udfs_container (self s),
                              udf_id = def_id (res_result response),
                              udf_clientContext = udfs_clientContext (self s)\<rparr>,
                  resp_userDefinedFunction = \<lparr>udf_container = udfs_container (self s),
                              udf_id = def_id (res_result response),
                              udf_clientContext = udfs_clientContext (self s)\<rparr>,
                  resp_udf = \<lparr>udf_container = udfs_container (self s),
                              udf_id = def_id (res_result response),
                              udf_clientContext = udfs_clientContext (self s)\<rparr>\<rparr>,
         s\<lparr>heap := (heap s)(body := stringify_body (heap s body)),
           world := snd (cc_upsert (udfs_clientContext (self s)) (stringify_body (heap s body))
                    (getPathFromLink H (c_url (udfs_container (self s))) ''udfs'') ''udfs''
                    (getIdFromLink H (c_url (udfs_container (self s)))) None options (world s)),
           calls := calls s @ [CC_upsert (stringify_body (heap s body))
                    (getPathFromLink H (c_url (udfs_container (self s))) ''udfs'') ''udfs''
                    (getIdFromLink H (c_url (udfs_container (self s)))) None options]\<rparr>)
      else (Inl (snd (isResourceValid H (stringify_body (heap s body)) [])),
            s\<lparr>heap := (heap s)(body := stringify_body (heap s body))\<rparr>)) \<and>
   snd (UserDefinedFunctions_query H query feedOptions s) = s \<and>
   snd (UserDefinedFunctions_readAll H feedOptions s) = s \<and>
   snd (Databases_getDatabase id' d) = d \<and>
   Databases_query query feedOptions d =
     (fst (dc_queryDatabases (documentClient (dbs_client (self d))) query feedOptions (world d)),
      d\<lparr>world := snd (dc_queryDatabases (documentClient (dbs_client (self d))) query
                        feedOptions (world d)),
        calls := calls d @ [DC_queryDatabases query feedOptions]\<rparr>) \<and>
   Databases_create dbBody options d =
     (fst (dc_createDatabase (documentClient (dbs_client (self d))) dbBody options (world d)),
      d\<lparr>world := snd (dc_createDatabase (documentClient (dbs_client (self d))) dbBody
                        options (world d)),
        calls := calls d @ [DC_createDatabase dbBody options]\<rparr>) \<and>
   Databases_read feedOptions d =
     (fst (dc_readDatabases (documentClient (dbs_client (self d))) feedOptions (world d)),
      d\<lparr>world := snd (dc_readDatabases (documentClient (dbs_client (self d))) feedOptions
                        (world d)),
        calls := calls d @ [DC_readDatabases feedOptions]\<rparr>) \<and>
   qi_fetchFunctions (fst (UserDefinedFunctions_query H query feedOptions s)) innerOptions s' =
     (fst (cc_queryFeed (udfs_clientContext (self s'))
             (getPathFromLink H (c_url (udfs_container (self s))) ''udfs'') ''udfs''
             (getIdFromLink H (c_url (udfs_container (self s))))
             (\<lambda>result. result ''UserDefinedFunctions'') query innerOptions (world s')),
      s'\<lparr>world := snd (cc_queryFeed (udfs_clientContext (self s'))
             (getPathFromLink H (c_url (udfs_container (self s))) ''udfs'') ''udfs''
             (getIdFromLink H (c_url (udfs_container (self s))))
             (\<lambda>result. result ''UserDefinedFunctions'') query innerOptions (world s')),
         calls := calls s' @ [CC_queryFeed
             (getPathFromLink H (c_url (udfs_container (self s))) ''udfs'') ''udfs''
             (getIdFromLink H (c_url (udfs_container (self s))))
             (\<lambda>result. result ''UserDefinedFunctions'') query innerOptions]\<rparr>)"
proof (cases "fst (isResourceValid H (stringify_body (heap s body)) [])")
  case True
  then show ?thesis
    by (simp add: prod_eq_iff create_events_run upsert_events_run sync_events_run
        fetch_events_run Databases_events_run completion_facts completions_def
        suspensions_def new_calls_def create_valid_state upsert_valid_state
        create_valid_outcome upsert_valid_outcome query_run queryFeed_run
        UserDefinedFunctions_readAll_def Databases_getDatabase_def Databases_query_run
        Databases_create_run Databases_read_run split: sum.splits)
next
  case False
  then show ?thesis
    by (simp add: prod_eq_iff create_events_run upsert_events_run sync_events_run
        fetch_events_run Databases_events_run completion_facts completions_def
        suspensions_def new_calls_def create_invalid upsert_invalid query_run queryFeed_run
        UserDefinedFunctions_readAll_def Databases_getDatabase_def Databases_query_run
        Databases_create_run Databases_read_run)
qed

text \<open>
  A valid definition on a service that answers and on one that does not, an invalid
  definition, a read, a handle and a fetch.
\<close>

theorem at_most_one_dispatch_witness:
  "UserDefinedFunctions_create_events sample_Helper 0 None (sample_udfs_state 5) =
     [Calls (CC_create \<lparr>def_id = Some ''tax'',
                 def_body = Some (BodyString ''function (x) { return x; }'')\<rparr>
        ''/dbs/db1/colls/c1/udfs'' ''udfs'' ''dbs/db1/colls/c1'' None None),
      Awaits, Completes] \<and>
   UserDefinedFunctions_create_events sample_Helper 0 None (sample_udfs_state 0) =
     [Calls (CC_create \<lparr>def_id = Some ''tax'',
                 def_body = Some (BodyString ''function (x) { return x; }'')\<rparr>
        ''/dbs/db1/colls/c1/udfs'' ''udfs'' ''dbs/db1/colls/c1'' None None),
      Awaits, Fails] \<and>
   UserDefinedFunctions_upsert_events sample_Helper 1 None (sample_udfs_state 5) = [Fails] \<and>
   world (snd (UserDefinedFunctions_upsert sample_Helper 0 None (sample_udfs_state 5))) = 4 \<and>
   world (snd (UserDefinedFunctions_upsert sample_Helper 1 None (sample_udfs_state 5))) = 5 \<and>
   new_calls (sample_udfs_state 5)
     (snd (UserDefinedFunctions_upsert sample_Helper 1 None (sample_udfs_state 5))) = [] \<and>
   Databases_read_events None (sample_dbs_state 5) = [Calls (DC_readDatabases None), Completes] \<and>
   Databases_getDatabase_events ''db1'' (sample_dbs_state 5) = [Completes] \<and>
   fetch_events (fst (UserDefinedFunctions_query sample_Helper None None (sample_udfs_state 5)))
       None (sample_udfs_state 5) =
     [Calls (CC_queryFeed ''/dbs/db1/colls/c1/udfs'' ''udfs'' ''dbs/db1/colls/c1''
        (\<lambda>result. result ''UserDefinedFunctions'') None None), Completes]"
proof -
  note valid = at_most_one_dispatch_per_invocation
    [where s = "sample_udfs_state 5" and H = sample_Helper and body = 0 and options = None
       and query = None and feedOptions = None and innerOptions = None
       and s' = "sample_udfs_state 5" and d = "sample_dbs_state 5"
       and id' = "''db1''" and dbBody = "\<lparr>dbdef_id = Some ''db2''\<rparr>"]
  note down = at_most_one_dispatch_per_invocation
    [where s = "sample_udfs_state 0" and H = sample_Helper and body = 0 and options = None
       and query = None and feedOptions = None and innerOptions = None
       and s' = "sample_udfs_state 5" and d = "sample_dbs_state 5"
       and id' = "''db1''" and dbBody = "\<lparr>dbdef_id = Some ''db2''\<rparr>"]
  note invalid = at_most_one_dispatch_per_invocation
    [where s = "sample_udfs_state 5" and H = sample_Helper and body = 1 and options = None
       and query = None and feedOptions = None and innerOptions = None
       and s' = "sample_udfs_state 5" and d = "sample_dbs_state 5"
       and id' = "''db1''" and dbBody = "\<lparr>dbdef_id = Some ''db2''\<rparr>"]
  from valid have c5: "UserDefinedFunctions_create_events sample_Helper 0 None (sample_udfs_state 5) =
     (if fst (isResourceValid sample_Helper (stringify_body (heap (sample_udfs_state 5) 0)) [])
      then [Calls (CC_create (stringify_body (heap (sample_udfs_state 5) 0))
              (getPathFromLink sample_Helper
                 (c_url (udfs_container (self (sample_udfs_state 5)))) ''udfs'') ''udfs''
              (getIdFromLink sample_Helper
                 (c_url (udfs_container (self (sample_udfs_state 5))))) None None),
            Awaits,
            completion (fst (UserDefinedFunctions_create sample_Helper 0 None
                               (sample_udfs_state 5)))]
      else [Fails])"
    by (rule conjunct1)
  from down have c0: "UserDefinedFunctions_create_events sample_Helper 0 None (sample_udfs_state 0) =
     (if fst (isResourceValid sample_Helper (stringify_body (heap (sample_udfs_state 0) 0)) [])
      then [Calls (CC_create (stringify_body (heap (sample_udfs_state 0) 0))
              (getPathFromLink sample_Helper
                 (c_url (udfs_container (self (sample_udfs_state 0)))) ''udfs'') ''udfs''
              (getIdFromLink sample_Helper
                 (c_url (udfs_container (self (sample_udfs_state 0))))) None None),
            Awaits,
            completion (fst (UserDefinedFunctions_create sample_Helper 0 None
                               (sample_udfs_state 0)))]
      else [Fails])"
    by (rule conjunct1)
  from invalid have u1: "UserDefinedFunctions_upsert_events sample_Helper 1 None (sample_udfs_state 5) =
     (if fst (isResourceValid sample_Helper (stringify_body (heap (sample_udfs_state 5) 1)) [])
      then [Calls (CC_upsert (stringify_body (heap (sample_udfs_state 5) 1))
              (getPathFromLink sample_Helper
                 (c_url (udfs_container (self (sample_udfs_state 5)))) ''udfs'') ''udfs''
              (getIdFromLink sample_Helper
                 (c_url (udfs_container (self (sample_udfs_state 5))))) None None),
            Awaits,
            completion (fst (UserDefinedFunctions_upsert sample_Helper 1 None
                               (sample_udfs_state 5)))]
      else [Fails])"
    by (rule conjunct2 [THEN conjunct1])
  have valid0: "fst (isResourceValid sample_Helper (stringify_body (heap (sample_udfs_state w) 0)) [])"
    and invalid1: "\<not> fst (isResourceValid sample_Helper
                         (stringify_body (heap (sample_udfs_state w) 1)) [])" for w
    by (simp_all add: sample_defs)
  have e5: "UserDefinedFunctions_create_events sample_Helper 0 None (sample_udfs_state 5) =
     [Calls (CC_create \<lparr>def_id = Some ''tax'',
                 def_body = Some (BodyString ''function (x) { return x; }'')\<rparr>
        ''/dbs/db1/colls/c1/udfs'' ''udfs'' ''dbs/db1/colls/c1'' None None),
      Awaits, Completes]"
    unfolding c5 by (subst create_valid_outcome [OF valid0]) (simp add: sample_defs)
  have e0: "UserDefinedFunctions_create_events sample_Helper 0 None (sample_udfs_state 0) =
     [Calls (CC_create \<lparr>def_id = Some ''tax'',
                 def_body = Some (BodyString ''function (x) { return x; }'')\<rparr>
        ''/dbs/db1/colls/c1/udfs'' ''udfs'' ''dbs/db1/colls/c1'' None None),
      Awaits, Fails]"
    unfolding c0 by (subst create_valid_outcome [OF valid0]) (simp add: sample_defs)
  have e1: "UserDefinedFunctions_upsert_events sample_Helper 1 None (sample_udfs_state 5) = [Fails]"
    unfolding u1 using invalid1 [of 5] by simp
  have w4: "world (snd (UserDefinedFunctions_upsert sample_Helper 0 None (sample_udfs_state 5))) = 4"
    by (subst upsert_valid_state [OF valid0]) (simp add: sample_defs)
  have w5: "world (snd (UserDefinedFunctions_upsert sample_Helper 1 None (sample_udfs_state 5))) = 5"
    by (subst upsert_invalid [OF invalid1]) (simp add: sample_defs)
  have n1: "new_calls (sample_udfs_state 5)
     (snd (UserDefinedFunctions_upsert sample_Helper 1 None (sample_udfs_state 5))) = []"
    by (subst upsert_invalid [OF invalid1]) (simp add: new_calls_def)
  have r: "Databases_read_events None (sample_dbs_state 5) =
      [Calls (DC_readDatabases None), Completes]"
    by (subst Databases_events_run) (simp add: sample_defs)
  have g: "Databases_getDatabase_events ''db1'' (sample_dbs_state 5) = [Completes]"
    by (simp add: sync_events_run)
  have f: "fetch_events
       (fst (UserDefinedFunctions_query sample_Helper None None (sample_udfs_state 5)))
       None (sample_udfs_state 5) =
     [Calls (CC_queryFeed ''/dbs/db1/colls/c1/udfs'' ''udfs'' ''dbs/db1/colls/c1''
        (\<lambda>result. result ''UserDefinedFunctions'') None None), Completes]"
    by (subst fetch_events_run) (simp add: sample_defs)
  from e5 e0 e1 w4 w5 n1 r g f show ?thesis by (intro conjI)
qed

section \<open>The facades keep no state\<close>

text \<open>
  Claim C7. No public method of \<^verbatim>\<open>UserDefinedFunctions\<close> or of \<^verbatim>\<open>Databases\<close>, and no fetch
  of an iterator made by \<^verbatim>\<open>query\<close>, changes a field of the facade object: the object is
  after the call what it was before, so nothing of one call is kept in it for a later one.
\<close>

theorem facade_fields_unchanged:
  "self (snd (UserDefinedFunctions_query H query feedOptions s)) = self s \<and>
   self (snd (UserDefinedFunctions_readAll H feedOptions s)) = self s \<and>
   self (snd (UserDefinedFunctions_create H body options s)) = self s \<and>
   self (snd (UserDefinedFunctions_upsert H body options s)) = self s \<and>
   self (snd (qi_fetchFunctions (fst (UserDefinedFunctions_query H query feedOptions s))
                innerOptions s')) = self s' \<and>
   self (snd (Databases_getDatabase id' d)) = self d \<and>
   self (snd (Databases_query query feedOptions d)) = self d \<and>
   self (snd (Databases_create dbBody options d)) = self d \<and>
   self (snd (Databases_read feedOptions d)) = self d"
proof (cases "fst (isResourceValid H (stringify_body (heap s body)) [])")
  case True
  then show ?thesis
    by (simp add: create_valid_state upsert_valid_state query_run queryFeed_run
        UserDefinedFunctions_readAll_def Databases_getDatabase_def
        Databases_query_run Databases_create_run Databases_read_run)
next
  case False
  then show ?thesis
    by (simp add: create_invalid upsert_invalid query_run queryFeed_run
        UserDefinedFunctions_readAll_def Databases_getDatabase_def
        Databases_query_run Databases_create_run Databases_read_run)
qed

text \<open>The fields after a call are the fields the constructor set.\<close>

theorem facade_fields_unchanged_witness:
  "self (snd (UserDefinedFunctions_create sample_Helper 0 None (sample_udfs_state 5))) =
     \<lparr>udfs_container = sample_container, udfs_clientContext = sample_clientContext,
      udfs_client = sample_client\<rparr> \<and>
   self (snd (UserDefinedFunctions_upsert sample_Helper 1 None (sample_udfs_state 5))) =
     \<lparr>udfs_container = sample_container, udfs_clientContext = sample_clientContext,
      udfs_client = sample_client\<rparr> \<and>
   self (snd (Databases_create \<lparr>dbdef_id = Some ''db2''\<rparr> None (sample_dbs_state 5))) =
     \<lparr>dbs_client = sample_client\<rparr>"
  using facade_fields_unchanged
    [where H = sample_Helper and query = None and feedOptions = None
       and s = "sample_udfs_state 5" and body = 0 and options = None and innerOptions = None
       and s' = "sample_udfs_state 5" and id' = "''db1''" and d = "sample_dbs_state 5"
       and dbBody = "\<lparr>dbdef_id = Some ''db2''\<rparr>"]
    facade_fields_unchanged
    [where H = sample_Helper and query = None and feedOptions = None
       and s = "sample_udfs_state 5" and body = 1 and options = None and innerOptions = None
       and s' = "sample_udfs_state 5" and id' = "''db1''" and d = "sample_dbs_state 5"
       and dbBody = "\<lparr>dbdef_id = Some ''db2''\<rparr>"]
  by (simp add: sample_udfs_state_def sample_dbs_state_def UserDefinedFunctions_new_def
      sample_container_def)

section \<open>readAll is query without a query\<close>

text \<open>
  Claim C8. For every options value, \<^verbatim>\<open>readAll(options)\<close> equals
  \<^verbatim>\<open>query(undefined, options)\<close>, and the iterator it returns is the one the claim
  describes: same path, kind \<^verbatim>\<open>udfs\<close>, container id, selector and options, with an
  undefined query specification.
\<close>

theorem readAll_is_query_undefined:
  "UserDefinedFunctions_readAll H options s = UserDefinedFunctions_query H None options s \<and>
   UserDefinedFunctions_readAll H options s = (readAll_described H options s, s) \<and>
   qi_query (fst (UserDefinedFunctions_readAll H options s)) = None \<and>
   qi_options (fst (UserDefinedFunctions_readAll H options s)) = options"
  by (simp add: UserDefinedFunctions_readAll_def UserDefinedFunctions_query_def
      readAll_described_def Let_def)

text \<open>With no options, and on a service that answers, a fetch of either iterator.\<close>

theorem readAll_is_query_undefined_witness:
  "UserDefinedFunctions_readAll sample_Helper None (sample_udfs_state 5) =
     UserDefinedFunctions_query sample_Helper None None (sample_udfs_state 5) \<and>
   qi_fetchFunctions (fst (UserDefinedFunctions_readAll sample_Helper None (sample_udfs_state 5)))
       None (sample_udfs_state 5) =
     (Inr \<lparr>res_result = None, res_headers = []\<rparr>,
      (sample_udfs_state 5)
        \<lparr>world := 4,
         calls := [CC_queryFeed ''/dbs/db1/colls/c1/udfs'' ''udfs'' ''dbs/db1/colls/c1''
                     (\<lambda>result. result ''UserDefinedFunctions'') None None]\<rparr>)"
proof -
  note r = readAll_is_query_undefined
    [where H = sample_Helper and options = None and s = "sample_udfs_state 5"]
  from r have same: "UserDefinedFunctions_readAll sample_Helper None (sample_udfs_state 5) =
      UserDefinedFunctions_query sample_Helper None None (sample_udfs_state 5)"
    by (rule conjunct1)
  from r have described: "UserDefinedFunctions_readAll sample_Helper None (sample_udfs_state 5) =
      (readAll_described sample_Helper None (sample_udfs_state 5), sample_udfs_state 5)"
    by (rule conjunct2 [THEN conjunct1])
  have "qi_fetchFunctions
          (fst (UserDefinedFunctions_readAll sample_Helper None (sample_udfs_state 5)))
          None (sample_udfs_state 5) =
     (Inr \<lparr>res_result = None, res_headers = []\<rparr>,
      (sample_udfs_state 5)
        \<lparr>world := 4,
         calls := [CC_queryFeed ''/dbs/db1/colls/c1/udfs'' ''udfs'' ''dbs/db1/colls/c1''
                     (\<lambda>result. result ''UserDefinedFunctions'') None None]\<rparr>)"
    unfolding described
    by (simp add: readAll_described_def clientContext_queryFeed_def sample_defs)
  with same show ?thesis by (rule conjI)
qed

section \<open>The caller's object is written to\<close>

text \<open>
  Claim C9. When \<^verbatim>\<open>body.body\<close> is truthy, \<^verbatim>\<open>create\<close> and \<^verbatim>\<open>upsert\<close> replace it in the
  caller's object by its string form, whatever the outcome of the call, and no other
  object of the caller is touched. Validation runs on the object as rewritten: when the
  helper rejects it, the method throws the validation error, and the caller's object has
  been written to all the same.
\<close>

theorem create_upsert_stringify_caller_body:
  assumes "def_body (heap s body) = Some b" and "truthy (Some b)"
  shows "heap (snd (UserDefinedFunctions_create H body options s)) body =
           (heap s body)\<lparr>def_body := Some (BodyString (toString b))\<rparr> \<and>
         heap (snd (UserDefinedFunctions_upsert H body options s)) body =
           (heap s body)\<lparr>def_body := Some (BodyString (toString b))\<rparr> \<and>
         heap (snd (UserDefinedFunctions_create H body options s)) =
           (heap s)(body := stringify_body (heap s body)) \<and>
         heap (snd (UserDefinedFunctions_upsert H body options s)) =
           (heap s)(body := stringify_body (heap s body)) \<and>
         (\<not> fst (isResourceValid H
                  ((heap s body)\<lparr>def_body := Some (BodyString (toString b))\<rparr>) [])
          \<longrightarrow> fst (UserDefinedFunctions_create H body options s) =
                Inl (snd (isResourceValid H
                  ((heap s body)\<lparr>def_body := Some (BodyString (toString b))\<rparr>) [])) \<and>
              fst (UserDefinedFunctions_upsert H body options s) =
                Inl (snd (isResourceValid H
                  ((heap s body)\<lparr>def_body := Some (BodyString (toString b))\<rparr>) [])))"
proof -
  have str: "stringify_body (heap s body) =
      (heap s body)\<lparr>def_body := Some (BodyString (toString b))\<rparr>"
    using assms by (simp add: stringify_body_def)
  show ?thesis
  proof (cases "fst (isResourceValid H (stringify_body (heap s body)) [])")
    case True
    then show ?thesis
      using str by (simp add: create_valid_state upsert_valid_state)
  next
    case False
    then show ?thesis
      using str by (simp add: create_invalid upsert_invalid)
  qed
qed

text \<open>
  The object at reference 1 holds a function body and no id: both methods throw the
  validation error, and the object now holds the source text of the function.
\<close>

theorem create_upsert_stringify_caller_body_witness:
  "def_body (heap (sample_udfs_state 5) 1) = Some (BodyFunction ''function () {}'') \<and>
   truthy (Some (BodyFunction ''function () {}'')) \<and>
   fst (UserDefinedFunctions_create sample_Helper 1 None (sample_udfs_state 5)) =
     Inl [(''message'', ''id is missing'')] \<and>
   heap (snd (UserDefinedFunctions_create sample_Helper 1 None (sample_udfs_state 5))) 1 =
     \<lparr>def_id = None, def_body = Some (BodyString ''function () {}'')\<rparr> \<and>
   fst (UserDefinedFunctions_upsert sample_Helper 1 None (sample_udfs_state 5)) =
     Inl [(''message'', ''id is missing'')] \<and>
   heap (snd (UserDefinedFunctions_upsert sample_Helper 1 None (sample_udfs_state 5))) 1 =
     \<lparr>def_id = None, def_body = Some (BodyString ''function () {}'')\<rparr> \<and>
   heap (sample_udfs_state 5) 1 =
     \<lparr>def_id = None, def_body = Some (BodyFunction ''function () {}'')\<rparr>"
  using create_upsert_stringify_caller_body
    [where s = "sample_udfs_state 5" and body = 1 and b = "BodyFunction ''function () {}''"
       and H = sample_Helper and options = None]
  by (simp add: sample_defs)

section \<open>getDatabase\<close>

text \<open>
  Claim C10. For every string \<open>id'\<close>, the empty string included, \<^verbatim>\<open>getDatabase\<close> returns
  the handle made of the client of the facade and exactly that id; it checks nothing,
  changes nothing and makes no call to the dispatch layer. The method has no failing
  branch: its result is a handle, not an outcome.
\<close>

theorem getDatabase_returns_handle:
  "Databases_getDatabase id' d = (\<lparr>db_client = dbs_client (self d), db_id = id'\<rparr>, d) \<and>
   db_id (fst (Databases_getDatabase id' d)) = id' \<and>
   db_client (fst (Databases_getDatabase id' d)) = dbs_client (self d) \<and>
   db_id (fst (Databases_getDatabase [] d)) = [] \<and>
   calls (snd (Databases_getDatabase id' d)) = calls d \<and>
   world (snd (Databases_getDatabase id' d)) = world d"
  by (simp add: Databases_getDatabase_def)

text \<open>The handle for the empty id, and for an id with a space and a slash in it.\<close>

theorem getDatabase_returns_handle_witness:
  "Databases_getDatabase [] (sample_dbs_state 5) =
     (\<lparr>db_client = sample_client, db_id = []\<rparr>, sample_dbs_state 5) \<and>
   Databases_getDatabase ''a /b'' (sample_dbs_state 0) =
     (\<lparr>db_client = sample_client, db_id = ''a /b''\<rparr>, sample_dbs_state 0)"
  using getDatabase_returns_handle [where id' = "[]" and d = "sample_dbs_state 5"]
    getDatabase_returns_handle [where id' = "''a /b''" and d = "sample_dbs_state 0"]
  by (simp add: sample_dbs_state_def)

end
